theory Spec2Isabelle
  imports Complex_Main
begin

section \<open>Data model of the stateless backend (main_stateless.py)\<close>

text \<open>
  Confidences are Python floats. Only their order and equality with \<open>0.0\<close> matter to the
  decision logic, so they are modelled as reals (a NaN score is outside the model).
  The image decoder and the YOLO model are external; the detector carries them as functions.
  A raised exception is the \<open>Inl\<close> of a sum, carrying \<open>str(e)\<close>.
\<close>

datatype VerificationStatus = APPROVED | REJECTED | PENDING_REVIEW

text \<open>One element of \<open>predictions[0].boxes\<close>: \<open>box.conf[0]\<close> and \<open>box.cls[0]\<close>.\<close>

record box =
  conf :: real
  cls :: int

text \<open>An entry of a \<open>details\<close> / \<open>all_detections\<close> list: a class with its
  confidence, or an error text.\<close>

datatype detail = Det string real | Err string

record 'img detector =
  decode_base64_image :: "string \<Rightarrow> 'img option"
  model :: "'img \<Rightarrow> string + box list"
  card_classes :: "int \<rightharpoonup> string"

text \<open>The module constants read from the environment.\<close>

record config =
  CONFIDENCE_THRESHOLD :: real
  LOW_CONFIDENCE_THRESHOLD :: real

text \<open>The dictionary returned by \<open>detect_from_bytes\<close>.\<close>

record side_result =
  detected :: bool
  class_name :: "string option"
  confidence :: real
  side_print_aadhar_detected :: bool
  all_detections :: "detail list"
  error :: "string option"

text \<open>The dictionary returned by \<open>detect_cards_from_base64\<close>.\<close>

record cards_result =
  front_detected :: bool
  back_detected :: bool
  front_confidence :: real
  back_confidence :: real
  print_aadhar_detected :: bool
  details_front :: "detail list"
  details_back :: "detail list"
  status :: VerificationStatus

section \<open>Per-side classifier: detect_from_bytes\<close>

text \<open>\<open>self.card_classes.get(class_id, "unknown")\<close>\<close>

definition get_class_name :: "(int \<rightharpoonup> string) \<Rightarrow> int \<Rightarrow> string" where
  "get_class_name classes class_id =
     (case classes class_id of None \<Rightarrow> ''unknown'' | Some n \<Rightarrow> n)"

definition side_init :: side_result where
  "side_init = \<lparr>detected = False, class_name = None, confidence = 0,
     side_print_aadhar_detected = False, all_detections = [], error = None\<rparr>"

text \<open>The body of \<open>for box in predictions[0].boxes\<close>. The model call is the step of the
  \<open>try\<close> block that can raise; reading a box does not.\<close>

definition box_step :: "(int \<rightharpoonup> string) \<Rightarrow> real \<Rightarrow> side_result \<Rightarrow> box \<Rightarrow> side_result" where
  "box_step classes confidence_threshold result b =
     (let c = conf b;
          nm = get_class_name classes (cls b);
          r1 = result\<lparr>all_detections := all_detections result @ [Det nm c]\<rparr>;
          r2 = (if nm = ''print_aadhar'' \<and> c > confidence_threshold
                then r1\<lparr>side_print_aadhar_detected := True\<rparr> else r1)
      in if c \<ge> confidence_threshold then
           if nm = ''aadhar_front'' \<or> nm = ''aadhar_back'' then
             if c > confidence r2
             then r2\<lparr>detected := True, class_name := Some nm, confidence := c\<rparr>
             else r2
           else r2
         else r2)"

definition detect_from_bytes :: "'img detector \<Rightarrow> 'img \<Rightarrow> real \<Rightarrow> side_result" where
  "detect_from_bytes d img confidence_threshold =
     (case model d img of
        Inl e \<Rightarrow> side_init\<lparr>error := Some e\<rparr>
      | Inr boxes \<Rightarrow> foldl (box_step (card_classes d) confidence_threshold) side_init boxes)"

section \<open>Decision engine: detect_cards_from_base64\<close>

text \<open>Truthiness of an \<open>Optional[str]\<close>: \<open>None\<close> and the empty string are false.\<close>

fun provided :: "string option \<Rightarrow> bool" where
  "provided None = False"
| "provided (Some s) = (s \<noteq> [])"

text \<open>The string held by an \<open>Optional[str]\<close> that passed the truthiness test.\<close>

fun str_of :: "string option \<Rightarrow> string" where
  "str_of None = []"
| "str_of (Some s) = s"

definition cards_init :: cards_result where
  "cards_init = \<lparr>front_detected = False, back_detected = False,
     front_confidence = 0, back_confidence = 0, print_aadhar_detected = False,
     details_front = [], details_back = [], status = REJECTED\<rparr>"

definition process_front :: "'img detector \<Rightarrow> string option \<Rightarrow> real \<Rightarrow> cards_result \<Rightarrow> cards_result" where
  "process_front d front_base64 confidence_threshold result =
     (if provided front_base64 then
        (case decode_base64_image d (str_of front_base64) of
           Some front_image \<Rightarrow>
             (let front_result = detect_from_bytes d front_image confidence_threshold;
                  r1 = (if side_print_aadhar_detected front_result
                        then result\<lparr>print_aadhar_detected := True\<rparr> else result)
              in if detected front_result \<and> class_name front_result = Some ''aadhar_front''
                 then r1\<lparr>front_detected := True,
                          front_confidence := confidence front_result,
                          details_front := all_detections front_result\<rparr>
                 else r1\<lparr>details_front := all_detections front_result\<rparr>)
         | None \<Rightarrow>
             result\<lparr>details_front := details_front result @ [Err ''Failed to decode front image'']\<rparr>)
      else result)"

definition process_back :: "'img detector \<Rightarrow> string option \<Rightarrow> real \<Rightarrow> cards_result \<Rightarrow> cards_result" where
  "process_back d back_base64 confidence_threshold result =
     (if provided back_base64 then
        (case decode_base64_image d (str_of back_base64) of
           Some back_image \<Rightarrow>
             (let back_result = detect_from_bytes d back_image confidence_threshold;
                  r1 = (if side_print_aadhar_detected back_result
                        then result\<lparr>print_aadhar_detected := True\<rparr> else result)
              in if detected back_result \<and> class_name back_result = Some ''aadhar_back''
                 then r1\<lparr>back_detected := True,
                          back_confidence := confidence back_result,
                          details_back := all_detections back_result\<rparr>
                 else r1\<lparr>details_back := all_detections back_result\<rparr>)
         | None \<Rightarrow>
             result\<lparr>details_back := details_back result @ [Err ''Failed to decode back image'']\<rparr>)
      else result)"

text \<open>Python's \<open>a or b\<close> on floats: \<open>a\<close> unless it is \<open>0.0\<close>.\<close>

definition float_or :: "real \<Rightarrow> real \<Rightarrow> real" where
  "float_or a b = (if a \<noteq> 0 then a else b)"

text \<open>The block under \<open># Determine verification status\<close>.\<close>

definition determine_status :: "config \<Rightarrow> cards_result \<Rightarrow> cards_result" where
  "determine_status cfg result =
     (if print_aadhar_detected result then result\<lparr>status := REJECTED\<rparr>
      else if front_detected result \<and> back_detected result then
        (if front_confidence result < LOW_CONFIDENCE_THRESHOLD cfg
            \<or> back_confidence result < LOW_CONFIDENCE_THRESHOLD cfg
         then result\<lparr>status := PENDING_REVIEW\<rparr>
         else result\<lparr>status := APPROVED\<rparr>)
      else if front_detected result \<or> back_detected result then
        (let c = float_or (front_confidence result) (back_confidence result)
         in if c < LOW_CONFIDENCE_THRESHOLD cfg
            then result\<lparr>status := PENDING_REVIEW\<rparr> else result)
      else result)"

definition detect_cards_from_base64 ::
  "config \<Rightarrow> 'img detector \<Rightarrow> string option \<Rightarrow> string option \<Rightarrow> real \<Rightarrow> cards_result" where
  "detect_cards_from_base64 cfg d front_base64 back_base64 confidence_threshold =
     determine_status cfg
       (process_back d back_base64 confidence_threshold
          (process_front d front_base64 confidence_threshold cards_init))"

section \<open>The file-based backend (main.py)\<close>

text \<open>
  \<open>AadhaarCardDetector.detect_cards\<close> works on downloaded files: \<open>os.path.exists\<close> and the
  model call on a path are external. Its result dictionary has no \<open>status\<close> key.
\<close>

record file_detector =
  path_exists :: "string \<Rightarrow> bool"
  model_on_path :: "string \<Rightarrow> string + box list"
  file_card_classes :: "int \<rightharpoonup> string"

record file_cards_result =
  m_front_detected :: bool
  m_back_detected :: bool
  m_front_confidence :: real
  m_back_confidence :: real
  m_print_aadhar_detected :: bool
  m_details_front :: "detail list"
  m_details_back :: "detail list"

definition file_cards_init :: file_cards_result where
  "file_cards_init = \<lparr>m_front_detected = False, m_back_detected = False,
     m_front_confidence = 0, m_back_confidence = 0, m_print_aadhar_detected = False,
     m_details_front = [], m_details_back = []\<rparr>"

text \<open>The body of \<open>for box in front_results[0].boxes\<close>.\<close>

definition front_box_step ::
  "(int \<rightharpoonup> string) \<Rightarrow> real \<Rightarrow> file_cards_result \<Rightarrow> box \<Rightarrow> file_cards_result" where
  "front_box_step classes confidence_threshold result b =
     (let c = conf b
      in if c < confidence_threshold then result
         else
           (let nm = get_class_name classes (cls b)
            in if nm = ''print_aadhar'' then result\<lparr>m_print_aadhar_detected := True\<rparr>
               else if nm = ''aadhar_front'' then
                 result\<lparr>m_front_detected := True, m_front_confidence := c,
                        m_details_front := m_details_front result @ [Det nm c]\<rparr>
               else result))"

text \<open>The body of \<open>for box in back_results[0].boxes\<close>.\<close>

definition back_box_step ::
  "(int \<rightharpoonup> string) \<Rightarrow> real \<Rightarrow> file_cards_result \<Rightarrow> box \<Rightarrow> file_cards_result" where
  "back_box_step classes confidence_threshold result b =
     (let c = conf b
      in if c < confidence_threshold then result
         else
           (let nm = get_class_name classes (cls b)
            in if nm = ''print_aadhar'' then result\<lparr>m_print_aadhar_detected := True\<rparr>
               else if nm = ''aadhar_back'' then
                 result\<lparr>m_back_detected := True, m_back_confidence := c,
                        m_details_back := m_details_back result @ [Det nm c]\<rparr>
               else result))"

definition detect_front_file ::
  "file_detector \<Rightarrow> string option \<Rightarrow> real \<Rightarrow> file_cards_result \<Rightarrow> file_cards_result" where
  "detect_front_file fd front_image_path confidence_threshold result =
     (if provided front_image_path \<and> path_exists fd (str_of front_image_path) then
        (case model_on_path fd (str_of front_image_path) of
           Inr boxes \<Rightarrow>
             foldl (front_box_step (file_card_classes fd) confidence_threshold) result boxes
         | Inl e \<Rightarrow> result\<lparr>m_details_front := m_details_front result @ [Err e]\<rparr>)
      else if provided front_image_path then
        result\<lparr>m_details_front := m_details_front result @ [Err ''Front image not found at path'']\<rparr>
      else result)"

definition detect_back_file ::
  "file_detector \<Rightarrow> string option \<Rightarrow> real \<Rightarrow> file_cards_result \<Rightarrow> file_cards_result" where
  "detect_back_file fd back_image_path confidence_threshold result =
     (if provided back_image_path \<and> path_exists fd (str_of back_image_path) then
        (case model_on_path fd (str_of back_image_path) of
           Inr boxes \<Rightarrow>
             foldl (back_box_step (file_card_classes fd) confidence_threshold) result boxes
         | Inl e \<Rightarrow> result\<lparr>m_details_back := m_details_back result @ [Err e]\<rparr>)
      else if provided back_image_path then
        result\<lparr>m_details_back := m_details_back result @ [Err ''Back image not found at path'']\<rparr>
      else result)"

definition detect_cards ::
  "file_detector \<Rightarrow> string option \<Rightarrow> string option \<Rightarrow> real \<Rightarrow> file_cards_result" where
  "detect_cards fd front_image_path back_image_path confidence_threshold =
     detect_back_file fd back_image_path confidence_threshold
       (detect_front_file fd front_image_path confidence_threshold file_cards_init)"

section \<open>The /detect endpoint and the manual review queue\<close>

record request =
  user_id :: string
  front_image :: "string option"
  back_image :: "string option"
  confidence_threshold :: real
  force_upload :: bool

record ManualReviewItem =
  item_user_id :: string
  timestamp :: string
  item_front_confidence :: real
  item_back_confidence :: real
  reason :: string

text \<open>
  \<open>front_ok and back_ok and request.front_image and request.back_image\<close> yields the first
  falsy operand or the last one, so the value may be a bool, \<open>None\<close> or a string.
\<close>

datatype pyval = PyBool bool | PyNone | PyStr string

fun truthy :: "pyval \<Rightarrow> bool" where
  "truthy (PyBool b) = b"
| "truthy PyNone = False"
| "truthy (PyStr s) = (s \<noteq> [])"

definition py_and :: "pyval \<Rightarrow> pyval \<Rightarrow> pyval" where
  "py_and a b = (if truthy a then b else a)"

fun py_str :: "string option \<Rightarrow> pyval" where
  "py_str None = PyNone"
| "py_str (Some s) = PyStr s"

record response_data =
  data_user_id :: string
  data_front_detected :: bool
  data_back_detected :: bool
  data_front_confidence :: real
  data_back_confidence :: real
  data_both_detected :: pyval
  data_status :: "VerificationStatus option"
  data_details :: "(detail list \<times> detail list) option"

datatype payload = PrintData bool | DetectionData response_data

text \<open>A \<open>JSONResponse\<close>: the status code and the keys of its content (absent keys are \<open>None\<close>).\<close>

record response =
  status_code :: nat
  success :: bool
  resp_detected :: "bool option"
  resp_status :: "VerificationStatus option"
  message :: string
  data :: "payload option"

text \<open>\<open>add_to_review_queue\<close>: \<open>manual_review_queue.append(item)\<close>.\<close>

definition add_to_review_queue :: "ManualReviewItem list \<Rightarrow> ManualReviewItem \<Rightarrow> ManualReviewItem list" where
  "add_to_review_queue manual_review_queue item = manual_review_queue @ [item]"

text \<open>\<open>', '.join(missing)\<close>\<close>

fun join_comma :: "string list \<Rightarrow> string" where
  "join_comma [] = []"
| "join_comma [x] = x"
| "join_comma (x # y # ys) = x @ '', '' @ join_comma (y # ys)"

definition compose_message :: "request \<Rightarrow> bool \<Rightarrow> bool \<Rightarrow> pyval \<Rightarrow> string" where
  "compose_message req front_ok back_ok both_provided_and_detected =
     (if truthy both_provided_and_detected then ''Both Aadhaar cards detected successfully.''
      else if front_ok then ''Aadhaar front card detected successfully.''
      else if back_ok then ''Aadhaar back card detected successfully.''
      else
        (let missing = (if provided (front_image req) \<and> \<not> front_ok then [''front''] else [])
                     @ (if provided (back_image req) \<and> \<not> back_ok then [''back''] else [])
         in if missing \<noteq> [] then ''Could not detect Aadhaar card(s): '' @ join_comma missing @ ''.''
            else ''No Aadhaar card detected in the provided image(s).''))"

text \<open>
  The handler \<open>detect_aadhaar_cards_stateless\<close>. It returns the response and the tasks it
  handed to \<open>background_tasks.add_task\<close>; \<open>now\<close> is \<open>datetime.utcnow().isoformat()\<close>.
  The global \<open>detector\<close> is \<open>None\<close> until startup has set it. The JWT check is a
  dependency that runs before the handler. Decoding and inference failures are caught
  inside the detector, so the handler's own \<open>except\<close> branch (status 500) has no
  counterpart here.
\<close>

definition detect_aadhaar_cards_stateless ::
  "config \<Rightarrow> 'img detector option \<Rightarrow> string \<Rightarrow> request \<Rightarrow> response \<times> ManualReviewItem list" where
  "detect_aadhaar_cards_stateless cfg detector now req =
     (case detector of
        None \<Rightarrow>
          (\<lparr>status_code = 503, success = False, resp_detected = None, resp_status = None,
            message = ''Detector not initialized'', data = None\<rparr>, [])
      | Some d \<Rightarrow>
          if \<not> provided (front_image req) \<and> \<not> provided (back_image req) then
            (\<lparr>status_code = 400, success = False, resp_detected = None, resp_status = None,
              message = ''At least one image (front_image or back_image) is required.'',
              data = None\<rparr>, [])
          else
            (let detection_result = detect_cards_from_base64 cfg d (front_image req)
                   (back_image req) (confidence_threshold req)
             in if print_aadhar_detected detection_result then
                  (\<lparr>status_code = 400, success = False, resp_detected = None, resp_status = None,
                    message = ''Print Aadhaar detected - security violation'',
                    data = Some (PrintData True)\<rparr>, [])
                else if force_upload req
                     \<and> \<not> (front_detected detection_result \<and> back_detected detection_result) then
                  (let review_item = \<lparr>item_user_id = user_id req, timestamp = now,
                         item_front_confidence = front_confidence detection_result,
                         item_back_confidence = back_confidence detection_result,
                         reason = ''Force upload - bypassed client-side checks''\<rparr>
                   in (\<lparr>status_code = 200, success = True, resp_detected = Some True,
                        resp_status = Some PENDING_REVIEW,
                        message = ''Document submitted for manual review'',
                        data = Some (DetectionData
                          \<lparr>data_user_id = user_id req,
                           data_front_detected = front_detected detection_result,
                           data_back_detected = back_detected detection_result,
                           data_front_confidence = front_confidence detection_result,
                           data_back_confidence = back_confidence detection_result,
                           data_both_detected = PyBool (front_detected detection_result
                              \<and> back_detected detection_result),
                           data_status = None, data_details = None\<rparr>)\<rparr>,
                       [review_item]))
                else
                  (let tasks = (if status detection_result = PENDING_REVIEW then
                          [\<lparr>item_user_id = user_id req, timestamp = now,
                            item_front_confidence = front_confidence detection_result,
                            item_back_confidence = back_confidence detection_result,
                            reason = ''Low confidence detection''\<rparr>]
                        else []);
                       front_ok = front_detected detection_result;
                       back_ok = back_detected detection_result;
                       both_provided_and_detected =
                         py_and (py_and (py_and (PyBool front_ok) (PyBool back_ok))
                           (py_str (front_image req))) (py_str (back_image req))
                   in (\<lparr>status_code = 200, success = True,
                        resp_detected = Some (front_ok \<or> back_ok), resp_status = None,
                        message = compose_message req front_ok back_ok both_provided_and_detected,
                        data = Some (DetectionData
                          \<lparr>data_user_id = user_id req,
                           data_front_detected = front_ok,
                           data_back_detected = back_ok,
                           data_front_confidence = front_confidence detection_result,
                           data_back_confidence = back_confidence detection_result,
                           data_both_detected = both_provided_and_detected,
                           data_status = Some (status detection_result),
                           data_details = Some (details_front detection_result,
                              details_back detection_result)\<rparr>)\<rparr>,
                       tasks))))"

text \<open>
  One request served: the handler runs, then the background tasks it scheduled run in
  order on the process-wide \<open>manual_review_queue\<close>.
\<close>

definition serve_detect ::
  "config \<Rightarrow> 'img detector option \<Rightarrow> string \<Rightarrow> ManualReviewItem list \<Rightarrow> request
     \<Rightarrow> response \<times> ManualReviewItem list" where
  "serve_detect cfg detector now manual_review_queue req =
     (let (resp, tasks) = detect_aadhaar_cards_stateless cfg detector now req
      in (resp, foldl add_to_review_queue manual_review_queue tasks))"

text \<open>The verification status a response reports: the top-level \<open>status\<close> key of the
  forced-review response, or the \<open>status\<close> key of \<open>data\<close>.\<close>

definition reported_status :: "response \<Rightarrow> VerificationStatus option" where
  "reported_status r =
     (case resp_status r of
        Some s \<Rightarrow> Some s
      | None \<Rightarrow> (case data r of Some (DetectionData dd) \<Rightarrow> data_status dd | _ \<Rightarrow> None))"

section \<open>Startup (main_stateless.py)\<close>

text \<open>
  \<open>StatelessAadhaarDetector.__init__\<close> raises \<open>FileNotFoundError\<close> when the model file is
  missing; \<open>YOLO(model_path)\<close> may raise as well. The file system and the loader are
  external: \<open>model_exists\<close> and \<open>load_model\<close>.
\<close>

record 'img environment =
  model_exists :: bool
  load_model :: "string + 'img detector"

definition detector_init :: "'img environment \<Rightarrow> string + 'img detector" where
  "detector_init env =
     (if \<not> model_exists env then Inl ''Model not found'' else load_model env)"

datatype 'img startup = Started "'img detector" | SysExit nat

text \<open>\<open>startup_event\<close>: any exception of the constructor leads to \<open>sys.exit(1)\<close>.\<close>

definition startup_event :: "config \<Rightarrow> 'img environment \<Rightarrow> 'img startup" where
  "startup_event cfg env =
     (case detector_init env of Inr d \<Rightarrow> Started d | Inl e \<Rightarrow> SysExit 1)"

section \<open>The raw tensor decoder (onnx_detector.py)\<close>

text \<open>
  The model output is an array of shape \<open>[1, channels, candidates]\<close>. Reading
  \<open>output[0, ch, i]\<close> outside the shape raises \<open>IndexError\<close>; \<open>max\<close> of an empty list and
  \<open>list.index\<close> of an absent value raise \<open>ValueError\<close>.
\<close>

datatype py_error = IndexError | ValueError

record tensor =
  num_channels :: nat
  num_candidates :: nat
  entry :: "nat \<Rightarrow> nat \<Rightarrow> real"

definition tensor_get :: "tensor \<Rightarrow> nat \<Rightarrow> nat \<Rightarrow> py_error + real" where
  "tensor_get output ch i =
     (if ch < num_channels output \<and> i < num_candidates output
      then Inr (entry output ch i) else Inl IndexError)"

definition MODEL_INPUT_SIZE :: real where
  "MODEL_INPUT_SIZE = 640"

definition CLASS_NAMES :: "string list" where
  "CLASS_NAMES = [''aadhaar_back'', ''aadhaar_front'', ''print_aadhaar'']"

text \<open>\<open>CONFIDENCE_THRESHOLD = 0.25\<close> of onnx_detector.py.\<close>

definition ONNX_CONFIDENCE_THRESHOLD :: real where
  "ONNX_CONFIDENCE_THRESHOLD = 0.25"

record bbox =
  bbox_x :: real
  bbox_y :: real
  bbox_width :: real
  bbox_height :: real

record best_detection =
  best_detected :: bool
  card_type :: "string option"
  best_confidence :: real
  best_bbox :: "bbox option"

definition best_init :: best_detection where
  "best_init = \<lparr>best_detected = False, card_type = None, best_confidence = 0, best_bbox = None\<rparr>"

text \<open>Sequencing of steps that may raise: the first exception ends the computation.\<close>

definition and_then :: "'e + 'a \<Rightarrow> ('a \<Rightarrow> 'e + 'b) \<Rightarrow> 'e + 'b" where
  "and_then m f = (case m of Inl e \<Rightarrow> Inl e | Inr v \<Rightarrow> f v)"

text \<open>\<open>for c in range(3): class_scores.append(output[0, 4 + c, i])\<close>\<close>

definition class_scores :: "tensor \<Rightarrow> nat \<Rightarrow> py_error + real list" where
  "class_scores output i =
     and_then (tensor_get output 4 i) (\<lambda>s0.
     and_then (tensor_get output 5 i) (\<lambda>s1.
     and_then (tensor_get output 6 i) (\<lambda>s2. Inr [s0, s1, s2])))"

fun py_max :: "real list \<Rightarrow> py_error + real" where
  "py_max [] = Inl ValueError"
| "py_max (x # xs) = Inr (foldl max x xs)"

text \<open>\<open>list.index\<close>: the position of the first equal element.\<close>

fun py_index :: "real list \<Rightarrow> real \<Rightarrow> py_error + nat" where
  "py_index [] v = Inl ValueError"
| "py_index (x # xs) v =
     (if x = v then Inr 0
      else case py_index xs v of Inl e \<Rightarrow> Inl e | Inr k \<Rightarrow> Inr (Suc k))"

text \<open>
  The body of \<open>for i in range(num_detections)\<close>. The list \<open>all_detections\<close> is only printed
  and is left out; the label it logs is the \<open>CLASS_NAMES[max_class_idx]\<close> used below.
\<close>

definition candidate_step ::
  "nat \<Rightarrow> nat \<Rightarrow> tensor \<Rightarrow> best_detection \<Rightarrow> nat \<Rightarrow> py_error + best_detection" where
  "candidate_step original_width original_height output best i =
     and_then (class_scores output i) (\<lambda>scores.
     and_then (py_max scores) (\<lambda>max_score.
     and_then (py_index scores max_score) (\<lambda>max_class_idx.
       if max_score > ONNX_CONFIDENCE_THRESHOLD \<and> max_score > best_confidence best then
         and_then (tensor_get output 0 i) (\<lambda>x_center.
         and_then (tensor_get output 1 i) (\<lambda>y_center.
         and_then (tensor_get output 2 i) (\<lambda>width.
         and_then (tensor_get output 3 i) (\<lambda>height.
           (let scale_x = real original_width / MODEL_INPUT_SIZE;
                scale_y = real original_height / MODEL_INPUT_SIZE
            in Inr \<lparr>best_detected = True,
                    card_type = Some (CLASS_NAMES ! max_class_idx),
                    best_confidence = max_score,
                    best_bbox = Some \<lparr>bbox_x = (x_center - width / 2) * scale_x,
                                       bbox_y = (y_center - height / 2) * scale_y,
                                       bbox_width = width * scale_x,
                                       bbox_height = height * scale_y\<rparr>\<rparr>)))))
       else Inr best)))"

fun detect_loop ::
  "nat \<Rightarrow> nat \<Rightarrow> tensor \<Rightarrow> best_detection \<Rightarrow> nat list \<Rightarrow> py_error + best_detection" where
  "detect_loop w h output best [] = Inr best"
| "detect_loop w h output best (i # is) =
     and_then (candidate_step w h output best i) (\<lambda>best'. detect_loop w h output best' is)"

text \<open>\<open>AadhaarDetector.detect\<close> after inference: \<open>num_detections = output.shape[2]\<close>.\<close>

definition detect :: "nat \<Rightarrow> nat \<Rightarrow> tensor \<Rightarrow> py_error + best_detection" where
  "detect original_width original_height output =
     detect_loop original_width original_height output best_init [0 ..< num_candidates output]"

section \<open>Invariants and sample inputs\<close>

text \<open>What every result of \<open>detect_from_bytes\<close> with threshold \<open>t\<close> satisfies.\<close>

definition side_inv :: "real \<Rightarrow> side_result \<Rightarrow> bool" where
  "side_inv t r \<longleftrightarrow>
     (if detected r
      then 0 < confidence r \<and> t \<le> confidence r
           \<and> (class_name r = Some ''aadhar_front'' \<or> class_name r = Some ''aadhar_back'')
      else confidence r = 0 \<and> class_name r = None)"

text \<open>The same for the two sides of the combined result.\<close>

definition cards_inv :: "real \<Rightarrow> cards_result \<Rightarrow> bool" where
  "cards_inv t r \<longleftrightarrow>
     (if front_detected r then 0 < front_confidence r \<and> t \<le> front_confidence r
      else front_confidence r = 0)
   \<and> (if back_detected r then 0 < back_confidence r \<and> t \<le> back_confidence r
      else back_confidence r = 0)"

text \<open>
  A detector over images named by strings, with the class table of the trained model,
  and the default thresholds. They serve as concrete inputs.
\<close>

definition sample_classes :: "int \<rightharpoonup> string" where
  "sample_classes = [0 \<mapsto> ''aadhar_back'', 1 \<mapsto> ''aadhar_front'', 2 \<mapsto> ''print_aadhar'']"

definition sample_model :: "string \<Rightarrow> string + box list" where
  "sample_model img =
     (if img = ''front'' then Inr [\<lparr>conf = 0.92, cls = 1\<rparr>]
      else if img = ''back'' then Inr [\<lparr>conf = 0.88, cls = 0\<rparr>]
      else if img = ''faint_back'' then Inr [\<lparr>conf = 0.08, cls = 0\<rparr>]
      else if img = ''printout'' then Inr [\<lparr>conf = 0.40, cls = 2\<rparr>, \<lparr>conf = 0.90, cls = 1\<rparr>]
      else if img = ''mixed'' then Inr [\<lparr>conf = 0.90, cls = 0\<rparr>, \<lparr>conf = 0.80, cls = 1\<rparr>]
      else if img = ''front_over_back'' then
        Inr [\<lparr>conf = 0.30, cls = 0\<rparr>, \<lparr>conf = 0.70, cls = 1\<rparr>,
             \<lparr>conf = 0.95, cls = 1\<rparr>, \<lparr>conf = 0.10, cls = 1\<rparr>]
      else if img = ''two_fronts'' then Inr [\<lparr>conf = 0.90, cls = 1\<rparr>, \<lparr>conf = 0.30, cls = 1\<rparr>]
      else if img = ''crash'' then Inl ''inference failed''
      else Inr [])"

definition sample_detector :: "string detector" where
  "sample_detector = \<lparr>decode_base64_image = (\<lambda>s. if s = ''garbage'' then None else Some s),
     model = sample_model, card_classes = sample_classes\<rparr>"

definition sample_config :: config where
  "sample_config = \<lparr>CONFIDENCE_THRESHOLD = 0.15, LOW_CONFIDENCE_THRESHOLD = 0.10\<rparr>"

text \<open>The engine as the handler calls it, and the two queue entries the handler builds.\<close>

definition run_engine :: "config \<Rightarrow> 'img detector \<Rightarrow> request \<Rightarrow> cards_result" where
  "run_engine cfg d req =
     detect_cards_from_base64 cfg d (front_image req) (back_image req) (confidence_threshold req)"

definition forced_review_item :: "string \<Rightarrow> request \<Rightarrow> cards_result \<Rightarrow> ManualReviewItem" where
  "forced_review_item now req r =
     \<lparr>item_user_id = user_id req, timestamp = now,
      item_front_confidence = front_confidence r, item_back_confidence = back_confidence r,
      reason = ''Force upload - bypassed client-side checks''\<rparr>"

definition low_confidence_item :: "string \<Rightarrow> request \<Rightarrow> cards_result \<Rightarrow> ManualReviewItem" where
  "low_confidence_item now req r =
     \<lparr>item_user_id = user_id req, timestamp = now,
      item_front_confidence = front_confidence r, item_back_confidence = back_confidence r,
      reason = ''Low confidence detection''\<rparr>"

text \<open>A forced upload whose back image shows no card.\<close>

definition sample_request :: request where
  "sample_request = \<lparr>user_id = ''u1'', front_image = Some ''front'', back_image = Some ''blank'',
     confidence_threshold = 0.15, force_upload = True\<rparr>"

text \<open>The class name of a box, and the boxes carrying a given label at or above the
  threshold: the slot's matching detections.\<close>

definition box_label :: "(int \<rightharpoonup> string) \<Rightarrow> box \<Rightarrow> string" where
  "box_label classes b = get_class_name classes (cls b)"

definition matching :: "(int \<rightharpoonup> string) \<Rightarrow> real \<Rightarrow> string \<Rightarrow> box list \<Rightarrow> box list" where
  "matching classes t nm bs = filter (\<lambda>b. box_label classes b = nm \<and> t \<le> conf b) bs"

definition is_card_label :: "string \<Rightarrow> bool" where
  "is_card_label nm \<longleftrightarrow> nm = ''aadhar_front'' \<or> nm = ''aadhar_back''"

text \<open>What every result of \<open>detect_cards\<close> (main.py) with threshold \<open>t\<close> satisfies.\<close>

definition file_cards_inv :: "real \<Rightarrow> file_cards_result \<Rightarrow> bool" where
  "file_cards_inv t r \<longleftrightarrow>
     (if m_front_detected r then t \<le> m_front_confidence r else m_front_confidence r = 0)
   \<and> (if m_back_detected r then t \<le> m_back_confidence r else m_back_confidence r = 0)"

text \<open>The file-based detector over the same sample images; the path \<open>missing\<close> does not exist.\<close>

definition sample_file_detector :: file_detector where
  "sample_file_detector = \<lparr>path_exists = (\<lambda>p. p \<noteq> ''missing''), model_on_path = sample_model,
     file_card_classes = sample_classes\<rparr>"

text \<open>The maximum class score of candidate \<open>i\<close>, the first class channel that holds it,
  the box scaled to the original image, and the detection the loop records for \<open>i\<close>.\<close>

definition cand_max :: "tensor \<Rightarrow> nat \<Rightarrow> real" where
  "cand_max output i = max (max (entry output 4 i) (entry output 5 i)) (entry output 6 i)"

definition cand_class :: "tensor \<Rightarrow> nat \<Rightarrow> nat" where
  "cand_class output i =
     (if entry output 4 i = cand_max output i then 0
      else if entry output 5 i = cand_max output i then 1 else 2)"

definition cand_bbox :: "nat \<Rightarrow> nat \<Rightarrow> tensor \<Rightarrow> nat \<Rightarrow> bbox" where
  "cand_bbox w h output i =
     \<lparr>bbox_x = (entry output 0 i - entry output 2 i / 2) * (real w / MODEL_INPUT_SIZE),
      bbox_y = (entry output 1 i - entry output 3 i / 2) * (real h / MODEL_INPUT_SIZE),
      bbox_width = entry output 2 i * (real w / MODEL_INPUT_SIZE),
      bbox_height = entry output 3 i * (real h / MODEL_INPUT_SIZE)\<rparr>"

definition chosen :: "nat \<Rightarrow> nat \<Rightarrow> tensor \<Rightarrow> nat \<Rightarrow> best_detection" where
  "chosen w h output i =
     \<lparr>best_detected = True, card_type = Some (CLASS_NAMES ! cand_class output i),
      best_confidence = cand_max output i, best_bbox = Some (cand_bbox w h output i)\<rparr>"

text \<open>Two model outputs of shape \<open>[1, 7, 2]\<close> and \<open>[1, 7, 1]\<close>.\<close>

definition sample_tensor :: tensor where
  "sample_tensor = \<lparr>num_channels = 7, num_candidates = 2,
     entry = (\<lambda>ch i. [[320, 100], [320, 100], [200, 50], [100, 50],
                        [0.05, 0.10], [0.90, 0.20], [0.30, 0.05]] ! ch ! i)\<rparr>"

definition sample_single :: tensor where
  "sample_single = \<lparr>num_channels = 7, num_candidates = 1,
     entry = (\<lambda>ch i. [[320], [320], [200], [100], [0.05], [0.30], [0.80]] ! ch ! i)\<rparr>"

text \<open>Two model outputs with more class channels than the decoder reads: shape
  \<open>[1, 9, 1]\<close> with five class scores, and shape \<open>[1, 8, 1]\<close> with four.\<close>

definition sample_wide :: tensor where
  "sample_wide = \<lparr>num_channels = 9, num_candidates = 1,
     entry = (\<lambda>ch i. [[320], [320], [200], [100],
                        [0.10], [0.20], [0.10], [0.30], [0.90]] ! ch ! i)\<rparr>"

definition sample_eight :: tensor where
  "sample_eight = \<lparr>num_channels = 8, num_candidates = 1,
     entry = (\<lambda>ch i. [[320], [320], [200], [100],
                        [0.50], [0.20], [0.10], [0.875]] ! ch ! i)\<rparr>"

text \<open>A configuration whose low-confidence threshold exceeds the base threshold, and an
  environment in which the model file exists and loads.\<close>

definition inconsistent_config :: config where
  "inconsistent_config = \<lparr>CONFIDENCE_THRESHOLD = 0.15, LOW_CONFIDENCE_THRESHOLD = 0.50\<rparr>"

definition sample_environment :: "string environment" where
  "sample_environment = \<lparr>model_exists = True, load_model = Inr sample_detector\<rparr>"

section \<open>Basic facts\<close>

lemmas sample_defs = sample_classes_def sample_model_def sample_detector_def sample_config_def
lemmas engine_defs = detect_cards_from_base64_def process_front_def process_back_def
  determine_status_def detect_from_bytes_def box_step_def get_class_name_def side_init_def
  cards_init_def float_or_def Let_def

lemma side_inv_init: "side_inv t side_init"
  by (simp add: side_inv_def side_init_def)

lemma side_inv_step: "side_inv t r \<Longrightarrow> side_inv t (box_step classes t r b)"
  by (auto simp: side_inv_def box_step_def Let_def split: if_splits)

lemma side_inv_foldl: "side_inv t r \<Longrightarrow> side_inv t (foldl (box_step classes t) r bs)"
  by (induction bs arbitrary: r) (simp_all add: side_inv_step)

lemma side_inv_detect: "side_inv t (detect_from_bytes d img t)"
proof (cases "model d img")
  case (Inl e)
  then show ?thesis by (simp add: detect_from_bytes_def side_inv_def side_init_def)
next
  case (Inr boxes)
  then show ?thesis by (simp add: detect_from_bytes_def side_inv_foldl side_inv_init)
qed

lemma cards_inv_init: "cards_inv t cards_init"
  by (simp add: cards_inv_def cards_init_def)

lemma cards_inv_front: "cards_inv t r \<Longrightarrow> \<not> front_detected r \<Longrightarrow> cards_inv t (process_front d f t r)"
  using side_inv_detect[of t d]
  by (auto simp: cards_inv_def process_front_def Let_def side_inv_def split: option.splits if_splits)

lemma cards_inv_back: "cards_inv t r \<Longrightarrow> \<not> back_detected r \<Longrightarrow> cards_inv t (process_back d b t r)"
  using side_inv_detect[of t d]
  by (auto simp: cards_inv_def process_back_def Let_def side_inv_def split: option.splits if_splits)

lemma process_front_back_detected: "back_detected (process_front d f t r) = back_detected r"
  by (simp add: process_front_def Let_def split: option.splits)

lemma determine_status_fields:
  "front_detected (determine_status cfg r) = front_detected r"
  "back_detected (determine_status cfg r) = back_detected r"
  "front_confidence (determine_status cfg r) = front_confidence r"
  "back_confidence (determine_status cfg r) = back_confidence r"
  "print_aadhar_detected (determine_status cfg r) = print_aadhar_detected r"
  by (simp_all add: determine_status_def Let_def)

lemma cards_inv_determine: "cards_inv t (determine_status cfg r) = cards_inv t r"
  by (simp add: cards_inv_def determine_status_fields)

lemma cards_inv_detect: "cards_inv t (detect_cards_from_base64 cfg d f b t)"
  unfolding detect_cards_from_base64_def cards_inv_determine
  by (intro cards_inv_back cards_inv_front cards_inv_init)
     (simp_all add: process_front_back_detected cards_init_def)


lemma determine_status_approved:
  "status (determine_status cfg r) = APPROVED \<Longrightarrow> status r \<noteq> APPROVED \<Longrightarrow>
     front_detected r \<and> back_detected r \<and> \<not> print_aadhar_detected r
     \<and> LOW_CONFIDENCE_THRESHOLD cfg \<le> front_confidence r
     \<and> LOW_CONFIDENCE_THRESHOLD cfg \<le> back_confidence r"
  by (auto simp: determine_status_def Let_def split: if_splits)

lemma process_front_status: "status (process_front d f t r) = status r"
  by (simp add: process_front_def Let_def split: option.splits)

lemma process_back_status: "status (process_back d b t r) = status r"
  by (simp add: process_back_def Let_def split: option.splits)

lemma process_back_front_detected: "front_detected (process_back d b t r) = front_detected r"
  by (simp add: process_back_def Let_def split: option.splits)

lemma front_detected_source:
  "front_detected (process_front d f t cards_init) \<Longrightarrow>
     provided f \<and> (\<exists>img. decode_base64_image d (str_of f) = Some img
        \<and> detected (detect_from_bytes d img t)
        \<and> class_name (detect_from_bytes d img t) = Some ''aadhar_front'')"
  by (auto simp: process_front_def Let_def cards_init_def split: option.splits if_splits)

lemma back_detected_source:
  "back_detected (process_back d b t r) \<Longrightarrow> \<not> back_detected r \<Longrightarrow>
     provided b \<and> (\<exists>img. decode_base64_image d (str_of b) = Some img
        \<and> detected (detect_from_bytes d img t)
        \<and> class_name (detect_from_bytes d img t) = Some ''aadhar_back'')"
  by (auto simp: process_back_def Let_def split: option.splits if_splits)

lemma detect_from_bytes_error:
  "model d img = Inl e \<Longrightarrow> \<not> detected (detect_from_bytes d img t)"
  by (simp add: detect_from_bytes_def side_init_def)

lemma determine_status_single:
  assumes "cards_inv t r" "status r = REJECTED" "\<not> print_aadhar_detected r"
    "front_detected r \<noteq> back_detected r"
    "front_detected r \<longrightarrow> LOW_CONFIDENCE_THRESHOLD cfg \<le> front_confidence r"
    "back_detected r \<longrightarrow> LOW_CONFIDENCE_THRESHOLD cfg \<le> back_confidence r"
  shows "status (determine_status cfg r) = REJECTED"
  using assms
  by (auto simp: determine_status_def cards_inv_def float_or_def Let_def split: if_splits)

lemma sample_run: "run_engine sample_config sample_detector sample_request =
   \<lparr>front_detected = True, back_detected = False, front_confidence = 0.92, back_confidence = 0,
    print_aadhar_detected = False, details_front = [Det ''aadhar_front'' 0.92], details_back = [],
    status = REJECTED\<rparr>"
  by (simp add: run_engine_def sample_request_def sample_defs engine_defs)

lemma serve_cases:
  "serve_detect cfg (Some d) now queue req =
     (fst (detect_aadhaar_cards_stateless cfg (Some d) now req),
      foldl add_to_review_queue queue (snd (detect_aadhaar_cards_stateless cfg (Some d) now req)))"
  by (simp add: serve_detect_def split: prod.splits)

lemma handler_tasks:
  "snd (detect_aadhaar_cards_stateless cfg (Some d) now req) =
     (if \<not> provided (front_image req) \<and> \<not> provided (back_image req) then []
      else if print_aadhar_detected (run_engine cfg d req) then []
      else if force_upload req
          \<and> \<not> (front_detected (run_engine cfg d req) \<and> back_detected (run_engine cfg d req))
        then [forced_review_item now req (run_engine cfg d req)]
      else if status (run_engine cfg d req) = PENDING_REVIEW
        then [low_confidence_item now req (run_engine cfg d req)]
      else [])"
  by (auto simp: detect_aadhaar_cards_stateless_def run_engine_def Let_def
      forced_review_item_def low_confidence_item_def)

lemma handler_status:
  "reported_status (fst (detect_aadhaar_cards_stateless cfg (Some d) now req)) =
     (if \<not> provided (front_image req) \<and> \<not> provided (back_image req) then None
      else if print_aadhar_detected (run_engine cfg d req) then None
      else if force_upload req
          \<and> \<not> (front_detected (run_engine cfg d req) \<and> back_detected (run_engine cfg d req))
        then Some PENDING_REVIEW
      else Some (status (run_engine cfg d req)))"
  by (auto simp: detect_aadhaar_cards_stateless_def run_engine_def Let_def reported_status_def)

lemma file_inv_init: "file_cards_inv t file_cards_init"
  by (simp add: file_cards_inv_def file_cards_init_def)

lemma file_inv_front_step: "file_cards_inv t r \<Longrightarrow> file_cards_inv t (front_box_step classes t r b)"
  by (auto simp: file_cards_inv_def front_box_step_def Let_def)

lemma file_inv_back_step: "file_cards_inv t r \<Longrightarrow> file_cards_inv t (back_box_step classes t r b)"
  by (auto simp: file_cards_inv_def back_box_step_def Let_def)

lemma file_inv_front_foldl:
  "file_cards_inv t r \<Longrightarrow> file_cards_inv t (foldl (front_box_step classes t) r bs)"
  by (induction bs arbitrary: r) (simp_all add: file_inv_front_step)

lemma file_inv_back_foldl:
  "file_cards_inv t r \<Longrightarrow> file_cards_inv t (foldl (back_box_step classes t) r bs)"
  by (induction bs arbitrary: r) (simp_all add: file_inv_back_step)

lemma file_inv_front: "file_cards_inv t r \<Longrightarrow> file_cards_inv t (detect_front_file fd f t r)"
  by (cases "model_on_path fd (str_of f)")
     (simp_all add: detect_front_file_def file_inv_front_foldl, simp_all add: file_cards_inv_def)

lemma file_inv_back: "file_cards_inv t r \<Longrightarrow> file_cards_inv t (detect_back_file fd b t r)"
  by (cases "model_on_path fd (str_of b)")
     (simp_all add: detect_back_file_def file_inv_back_foldl, simp_all add: file_cards_inv_def)

lemma file_inv_detect: "file_cards_inv t (detect_cards fd f b t)"
  by (simp add: detect_cards_def file_inv_back file_inv_front file_inv_init)

lemmas file_defs = detect_cards_def detect_front_file_def detect_back_file_def front_box_step_def
  back_box_step_def file_cards_init_def sample_file_detector_def

lemma foldl_box_step_char:
  "0 \<le> confidence (foldl (box_step classes t) side_init bs)
   \<and> (\<forall>b\<in>set bs. is_card_label (box_label classes b) \<and> t \<le> conf b
          \<longrightarrow> conf b \<le> confidence (foldl (box_step classes t) side_init bs))
   \<and> (if detected (foldl (box_step classes t) side_init bs)
       then \<exists>b\<in>set bs. is_card_label (box_label classes b) \<and> t \<le> conf b \<and> 0 < conf b
              \<and> conf b = confidence (foldl (box_step classes t) side_init bs)
              \<and> class_name (foldl (box_step classes t) side_init bs) = Some (box_label classes b)
       else confidence (foldl (box_step classes t) side_init bs) = 0
              \<and> class_name (foldl (box_step classes t) side_init bs) = None)"
proof (induction bs rule: rev_induct)
  case Nil
  show ?case by (simp add: side_init_def)
next
  case (snoc x xs)
  let ?r = "foldl (box_step classes t) side_init xs"
  have step: "foldl (box_step classes t) side_init (xs @ [x]) = box_step classes t ?r x"
    by simp
  show ?case
  proof (cases "t \<le> conf x \<and> is_card_label (box_label classes x) \<and> confidence ?r < conf x")
    case True
    then have new: "box_step classes t ?r x =
        ?r\<lparr>all_detections := all_detections ?r @ [Det (box_label classes x) (conf x)],
           detected := True, class_name := Some (box_label classes x), confidence := conf x\<rparr>"
      by (auto simp: box_step_def Let_def box_label_def is_card_label_def)
    from snoc True show ?thesis
      unfolding step new by (auto split: if_splits)
  next
    case False
    then have old: "confidence (box_step classes t ?r x) = confidence ?r"
      "detected (box_step classes t ?r x) = detected ?r"
      "class_name (box_step classes t ?r x) = class_name ?r"
      by (auto simp: box_step_def Let_def box_label_def is_card_label_def)
    from snoc False show ?thesis
      unfolding step old by (auto split: if_splits)
  qed
qed

lemma best_matching_fold:
  assumes lab: "(nm = ''aadhar_front'' \<and> other = ''aadhar_back'')
        \<or> (nm = ''aadhar_back'' \<and> other = ''aadhar_front'')"
    and ne: "matching classes t nm bs \<noteq> []"
    and pos: "0 < Max (set (map conf (matching classes t nm bs)))"
    and dom: "\<forall>b\<in>set (matching classes t other bs).
                 conf b < Max (set (map conf (matching classes t nm bs)))"
  shows "detected (foldl (box_step classes t) side_init bs)
       \<and> class_name (foldl (box_step classes t) side_init bs) = Some nm
       \<and> confidence (foldl (box_step classes t) side_init bs)
           = Max (set (map conf (matching classes t nm bs)))"
proof -
  let ?r = "foldl (box_step classes t) side_init bs"
  let ?M = "set (map conf (matching classes t nm bs))"
  note ch = foldl_box_step_char [of classes t bs]
  have fin: "finite ?M" and nem: "?M \<noteq> {}" using ne by simp_all
  from Max_in [OF fin nem] obtain b0 where
    b0: "b0 \<in> set bs" "box_label classes b0 = nm" "t \<le> conf b0" "conf b0 = Max ?M"
    by (auto simp: matching_def)
  have card0: "is_card_label (box_label classes b0)"
    using lab b0(2) by (auto simp: is_card_label_def)
  from ch b0 card0 have ge: "Max ?M \<le> confidence ?r" by auto
  with pos have "0 < confidence ?r" by simp
  with ch have det: "detected ?r" by (auto split: if_splits)
  with ch obtain b where
    b: "b \<in> set bs" "is_card_label (box_label classes b)" "t \<le> conf b"
       "conf b = confidence ?r" "class_name ?r = Some (box_label classes b)"
    by (auto split: if_splits)
  have "box_label classes b \<noteq> other"
  proof
    assume "box_label classes b = other"
    with b have "b \<in> set (matching classes t other bs)" by (simp add: matching_def)
    with dom have "conf b < Max ?M" by blast
    with ge b(4) show False by simp
  qed
  with b(2) lab have nm: "box_label classes b = nm" by (auto simp: is_card_label_def)
  with b(1,3) have "b \<in> set (matching classes t nm bs)" by (simp add: matching_def)
  then have "conf b \<in> ?M" by simp
  then have "conf b \<le> Max ?M" using fin by (rule Max_ge [rotated])
  with ge b(4) have "confidence ?r = Max ?M" by simp
  with det b(5) nm show ?thesis by simp
qed

lemma process_back_front_confidence: "front_confidence (process_back d b t r) = front_confidence r"
  by (simp add: process_back_def Let_def split: option.splits)

lemma matching_front_over_back:
  "matching sample_classes 0.15 ''aadhar_front''
      [\<lparr>conf = 0.30, cls = 0\<rparr>, \<lparr>conf = 0.70, cls = 1\<rparr>,
       \<lparr>conf = 0.95, cls = 1\<rparr>, \<lparr>conf = 0.10, cls = 1\<rparr>]
     = [\<lparr>conf = 0.70, cls = 1\<rparr>, \<lparr>conf = 0.95, cls = 1\<rparr>]"
  "matching sample_classes 0.15 ''aadhar_back''
      [\<lparr>conf = 0.30, cls = 0\<rparr>, \<lparr>conf = 0.70, cls = 1\<rparr>,
       \<lparr>conf = 0.95, cls = 1\<rparr>, \<lparr>conf = 0.10, cls = 1\<rparr>]
     = [\<lparr>conf = 0.30, cls = 0\<rparr>]"
  by (simp_all add: matching_def box_label_def get_class_name_def sample_classes_def)

lemma foldl_front_step_source:
  "m_front_detected (foldl (front_box_step classes t) r bs) \<Longrightarrow>
     m_front_detected r \<or> (\<exists>b\<in>set bs. box_label classes b = ''aadhar_front'' \<and> t \<le> conf b)"
proof (induction bs arbitrary: r)
  case Nil
  then show ?case by simp
next
  case (Cons x xs)
  from Cons.IH [of "front_box_step classes t r x"] Cons.prems
  show ?case
    by (auto simp: front_box_step_def box_label_def Let_def split: if_splits)
qed

lemma foldl_back_step_source:
  "m_back_detected (foldl (back_box_step classes t) r bs) \<Longrightarrow>
     m_back_detected r \<or> (\<exists>b\<in>set bs. box_label classes b = ''aadhar_back'' \<and> t \<le> conf b)"
proof (induction bs arbitrary: r)
  case Nil
  then show ?case by simp
next
  case (Cons x xs)
  from Cons.IH [of "back_box_step classes t r x"] Cons.prems
  show ?case
    by (auto simp: back_box_step_def box_label_def Let_def split: if_splits)
qed

lemma detect_back_file_front: "m_front_detected (detect_back_file fd b t r) = m_front_detected r"
proof -
  have "m_front_detected (foldl (back_box_step classes t) r' bs) = m_front_detected r'"
    for classes r' bs
    by (induction bs arbitrary: r') (simp_all add: back_box_step_def Let_def)
  then show ?thesis
    by (simp add: detect_back_file_def split: sum.splits)
qed

lemma file_front_undetected:
  assumes "model_on_path fd (str_of fp) = Inr bs"
    and "\<forall>b\<in>set bs. conf b < t \<or> box_label (file_card_classes fd) b \<noteq> ''aadhar_front''"
  shows "\<not> m_front_detected (detect_cards fd fp bp t)"
proof
  assume "m_front_detected (detect_cards fd fp bp t)"
  then have d: "m_front_detected (detect_front_file fd fp t file_cards_init)"
    by (simp add: detect_cards_def detect_back_file_front)
  have "\<not> m_front_detected file_cards_init" by (simp add: file_cards_init_def)
  with d assms(1) have "m_front_detected
      (foldl (front_box_step (file_card_classes fd) t) file_cards_init bs)"
    by (simp add: detect_front_file_def split: if_splits)
  from foldl_front_step_source [OF this] assms(2) show False
    by (auto simp: file_cards_init_def)
qed

lemma file_back_undetected:
  assumes "model_on_path fd (str_of bp) = Inr bs"
    and "\<forall>b\<in>set bs. conf b < t \<or> box_label (file_card_classes fd) b \<noteq> ''aadhar_back''"
  shows "\<not> m_back_detected (detect_cards fd fp bp t)"
proof
  assume d: "m_back_detected (detect_cards fd fp bp t)"
  let ?r = "detect_front_file fd fp t file_cards_init"
  have "m_back_detected (foldl (front_box_step classes t) r' bs') = m_back_detected r'"
    for classes r' bs'
    by (induction bs' arbitrary: r') (simp_all add: front_box_step_def Let_def)
  then have nb: "\<not> m_back_detected ?r"
    by (simp add: detect_front_file_def file_cards_init_def split: sum.splits)
  from d assms(1) nb have "m_back_detected
      (foldl (back_box_step (file_card_classes fd) t) ?r bs)"
    by (simp add: detect_cards_def detect_back_file_def split: if_splits)
  from foldl_back_step_source [OF this] assms(2) nb show False
    by auto
qed

lemma side_undetected:
  assumes "model d img = Inr bs"
    and "\<forall>b\<in>set bs. conf b < t \<or> box_label (card_classes d) b \<noteq> nm"
  shows "\<not> (detected (detect_from_bytes d img t) \<and> class_name (detect_from_bytes d img t) = Some nm)"
proof
  assume a: "detected (detect_from_bytes d img t) \<and> class_name (detect_from_bytes d img t) = Some nm"
  have eq: "detect_from_bytes d img t = foldl (box_step (card_classes d) t) side_init bs"
    using assms(1) by (simp add: detect_from_bytes_def)
  from foldl_box_step_char [of "card_classes d" t bs] a
  obtain b where "b \<in> set bs" "t \<le> conf b" "Some nm = Some (box_label (card_classes d) b)"
    unfolding eq by (auto split: if_splits)
  with assms(2) show False by auto
qed

lemma stateless_front_undetected:
  assumes "decode_base64_image d (str_of f) = Some img" "model d img = Inr bs"
    and "\<forall>b\<in>set bs. conf b < t \<or> box_label (card_classes d) b \<noteq> ''aadhar_front''"
  shows "\<not> front_detected (detect_cards_from_base64 cfg d f b t)"
  using side_undetected [OF assms(2,3)] assms(1)
  by (auto simp: detect_cards_from_base64_def determine_status_fields process_back_front_detected
      process_front_def Let_def cards_init_def)

lemma stateless_back_undetected:
  assumes "decode_base64_image d (str_of b) = Some img" "model d img = Inr bs"
    and "\<forall>x\<in>set bs. conf x < t \<or> box_label (card_classes d) x \<noteq> ''aadhar_back''"
  shows "\<not> back_detected (detect_cards_from_base64 cfg d f b t)"
  using side_undetected [OF assms(2,3)] assms(1)
  by (auto simp: detect_cards_from_base64_def determine_status_fields process_front_back_detected
      process_back_def Let_def cards_init_def)

lemma cand_class_props:
  "cand_class output i < 3"
  "entry output (4 + cand_class output i) i = cand_max output i"
  "\<forall>c<3. entry output (4 + c) i \<le> cand_max output i"
  "\<forall>c<cand_class output i. entry output (4 + c) i < cand_max output i"
proof -
  show "cand_class output i < 3" by (simp add: cand_class_def)
  show "entry output (4 + cand_class output i) i = cand_max output i"
    by (auto simp: cand_class_def cand_max_def max_def)
  show "\<forall>c<3. entry output (4 + c) i \<le> cand_max output i"
    by (auto simp: numeral_3_eq_3 less_Suc_eq cand_max_def)
  show "\<forall>c<cand_class output i. entry output (4 + c) i < cand_max output i"
  proof (intro allI impI)
    fix c assume "c < cand_class output i"
    then have "(c = 0 \<and> entry output 4 i \<noteq> cand_max output i)
        \<or> (c = 1 \<and> entry output 4 i \<noteq> cand_max output i \<and> entry output 5 i \<noteq> cand_max output i)"
      by (auto simp: cand_class_def split: if_splits)
    moreover have "entry output 4 i \<le> cand_max output i" "entry output 5 i \<le> cand_max output i"
      by (simp_all add: cand_max_def)
    ultimately show "entry output (4 + c) i < cand_max output i" by auto
  qed
qed

lemma and_then_Inr: "and_then (Inr v) f = f v"
  by (simp add: and_then_def)

lemma candidate_step_wf:
  assumes "num_channels output = 7" "i < num_candidates output"
  shows "candidate_step w h output best i =
     Inr (if cand_max output i > ONNX_CONFIDENCE_THRESHOLD \<and> cand_max output i > best_confidence best
          then \<lparr>best_detected = True, card_type = Some (CLASS_NAMES ! cand_class output i),
                best_confidence = cand_max output i, best_bbox = Some (cand_bbox w h output i)\<rparr>
          else best)"
proof -
  have g: "tensor_get output c i = Inr (entry output c i)" if "c < 7" for c
    using assms that by (simp add: tensor_get_def)
  have sc: "class_scores output i = Inr [entry output 4 i, entry output 5 i, entry output 6 i]"
    by (simp add: class_scores_def and_then_Inr g)
  have mx: "py_max [entry output 4 i, entry output 5 i, entry output 6 i] = Inr (cand_max output i)"
    by (simp add: cand_max_def)
  have ix: "py_index [entry output 4 i, entry output 5 i, entry output 6 i] (cand_max output i)
      = Inr (cand_class output i)"
    by (auto simp: cand_class_def cand_max_def max_def)
  have box: "tensor_get output 0 i = Inr (entry output 0 i)" "tensor_get output 1 i = Inr (entry output 1 i)"
    "tensor_get output 2 i = Inr (entry output 2 i)" "tensor_get output 3 i = Inr (entry output 3 i)"
    by (simp_all add: g)
  show ?thesis
    unfolding candidate_step_def sc and_then_Inr mx ix box
    by (simp add: cand_bbox_def Let_def)
qed

lemma detect_loop_char:
  assumes "num_channels output = 7" "\<forall>i\<in>set is. i < num_candidates output"
  shows "\<exists>best'. detect_loop w h output best is = Inr best'
     \<and> best_confidence best \<le> best_confidence best'
     \<and> (\<forall>i\<in>set is. ONNX_CONFIDENCE_THRESHOLD < cand_max output i
            \<longrightarrow> cand_max output i \<le> best_confidence best')
     \<and> (best' = best
         \<or> (\<exists>i\<in>set is. ONNX_CONFIDENCE_THRESHOLD < cand_max output i
               \<and> best_confidence best < cand_max output i \<and> best' = chosen w h output i))"
  using assms(2)
proof (induction "is" arbitrary: best)
  case Nil
  show ?case by simp
next
  case (Cons i "is")
  let ?b1 = "if cand_max output i > ONNX_CONFIDENCE_THRESHOLD \<and> cand_max output i > best_confidence best
             then chosen w h output i else best"
  have st: "candidate_step w h output best i = Inr ?b1"
    using candidate_step_wf [OF assms(1), of i w h best] Cons.prems by (simp add: chosen_def)
  from Cons.prems have "\<forall>j\<in>set is. j < num_candidates output" by simp
  from Cons.IH [OF this, of ?b1] obtain best' where
    r: "detect_loop w h output ?b1 is = Inr best'"
    and mono: "best_confidence ?b1 \<le> best_confidence best'"
    and ub: "\<forall>j\<in>set is. ONNX_CONFIDENCE_THRESHOLD < cand_max output j
            \<longrightarrow> cand_max output j \<le> best_confidence best'"
    and src: "best' = ?b1
         \<or> (\<exists>j\<in>set is. ONNX_CONFIDENCE_THRESHOLD < cand_max output j
               \<and> best_confidence ?b1 < cand_max output j \<and> best' = chosen w h output j)"
    by blast
  have run: "detect_loop w h output best (i # is) = Inr best'"
    by (simp add: st and_then_Inr r)
  have b1: "best_confidence best \<le> best_confidence ?b1"
    by (simp add: chosen_def)
  have b1i: "ONNX_CONFIDENCE_THRESHOLD < cand_max output i \<longrightarrow> cand_max output i \<le> best_confidence ?b1"
    by (simp add: chosen_def)
  have "best_confidence best \<le> best_confidence best'"
    using b1 mono by linarith
  moreover have "\<forall>j\<in>set (i # is). ONNX_CONFIDENCE_THRESHOLD < cand_max output j
            \<longrightarrow> cand_max output j \<le> best_confidence best'"
    using ub b1i mono by auto
  moreover have "best' = best
         \<or> (\<exists>j\<in>set (i # is). ONNX_CONFIDENCE_THRESHOLD < cand_max output j
               \<and> best_confidence best < cand_max output j \<and> best' = chosen w h output j)"
  proof -
    from src show ?thesis
    proof
      assume "best' = ?b1"
      then show ?thesis by (auto split: if_splits)
    next
      assume "\<exists>j\<in>set is. ONNX_CONFIDENCE_THRESHOLD < cand_max output j
               \<and> best_confidence ?b1 < cand_max output j \<and> best' = chosen w h output j"
      then obtain j where "j \<in> set is" "ONNX_CONFIDENCE_THRESHOLD < cand_max output j"
        "best_confidence ?b1 < cand_max output j" "best' = chosen w h output j" by blast
      with b1 show ?thesis by (intro disjI2 bexI [of _ j]) auto
    qed
  qed
  ultimately show ?case using run by blast
qed

lemmas onnx_defs = detect_def candidate_step_def class_scores_def tensor_get_def and_then_def
  best_init_def CLASS_NAMES_def ONNX_CONFIDENCE_THRESHOLD_def MODEL_INPUT_SIZE_def Let_def

lemma upt_2: "[0..<2] = [0, 1]" "[0..<1] = [0]"
  by (simp_all add: upt_rec)

lemma sample_tensor_detect:
  "detect 1280 640 sample_tensor =
     Inr \<lparr>best_detected = True, card_type = Some ''aadhaar_front'', best_confidence = 0.90,
          best_bbox = Some \<lparr>bbox_x = 440, bbox_y = 270, bbox_width = 400, bbox_height = 100\<rparr>\<rparr>"
  by (simp add: onnx_defs sample_tensor_def upt_2)

lemma sample_single_detect:
  "detect 640 640 sample_single =
     Inr \<lparr>best_detected = True, card_type = Some ''print_aadhaar'', best_confidence = 0.80,
          best_bbox = Some \<lparr>bbox_x = 220, bbox_y = 270, bbox_width = 200, bbox_height = 100\<rparr>\<rparr>"
  by (simp add: onnx_defs sample_single_def upt_2)

section \<open>Fraud precedence\<close>

text \<open>
  C1. Whenever the printed-copy signal fired on either side, the decision engine returns
  the status REJECTED, and the endpoint answers with the security-violation response
  whose data reports \<open>print_aadhar_detected = True\<close>; this holds for every request
  (so also with \<open>force_upload\<close> set, and whatever the detections and confidences are),
  and the review queue is left as it was.
\<close>

theorem fraud_rejected_first:
  assumes "print_aadhar_detected (detect_cards_from_base64 cfg d (front_image req)
             (back_image req) (confidence_threshold req))"
  shows "status (detect_cards_from_base64 cfg d (front_image req)
             (back_image req) (confidence_threshold req)) = REJECTED
       \<and> serve_detect cfg (Some d) now queue req =
           (\<lparr>status_code = 400, success = False, resp_detected = None, resp_status = None,
             message = ''Print Aadhaar detected - security violation'',
             data = Some (PrintData True)\<rparr>, queue)"
proof -
  define r where "r = detect_cards_from_base64 cfg d (front_image req)
             (back_image req) (confidence_threshold req)"
  have pr: "print_aadhar_detected (process_back d (back_image req) (confidence_threshold req)
       (process_front d (front_image req) (confidence_threshold req) cards_init))"
    using assms by (simp add: detect_cards_from_base64_def determine_status_fields)
  have st: "status r = REJECTED"
    using pr by (simp add: r_def detect_cards_from_base64_def determine_status_def)
  have prov: "provided (front_image req) \<or> provided (back_image req)"
  proof (rule ccontr)
    assume "\<not> ?thesis"
    then have "\<not> print_aadhar_detected r"
      by (simp add: r_def detect_cards_from_base64_def process_front_def process_back_def
          determine_status_def cards_init_def)
    with assms show False by (simp add: r_def)
  qed
  have "serve_detect cfg (Some d) now queue req =
           (\<lparr>status_code = 400, success = False, resp_detected = None, resp_status = None,
             message = ''Print Aadhaar detected - security violation'',
             data = Some (PrintData True)\<rparr>, queue)"
    using prov assms
    by (auto simp: serve_detect_def detect_aadhaar_cards_stateless_def r_def Let_def)
  with st show ?thesis by (simp add: r_def)
qed

theorem fraud_rejected_first_witness:
  "print_aadhar_detected (detect_cards_from_base64 sample_config sample_detector
       (Some ''printout'') (Some ''back'') 0.15)
   \<and> status (detect_cards_from_base64 sample_config sample_detector
       (Some ''printout'') (Some ''back'') 0.15) = REJECTED
   \<and> fst (serve_detect sample_config (Some sample_detector) ''2024-01-01T00:00:00'' []
        \<lparr>user_id = ''u1'', front_image = Some ''printout'', back_image = Some ''back'',
         confidence_threshold = 0.15, force_upload = True\<rparr>)
      = \<lparr>status_code = 400, success = False, resp_detected = None, resp_status = None,
         message = ''Print Aadhaar detected - security violation'',
         data = Some (PrintData True)\<rparr>
   \<and> snd (serve_detect sample_config (Some sample_detector) ''2024-01-01T00:00:00'' []
        \<lparr>user_id = ''u1'', front_image = Some ''printout'', back_image = Some ''back'',
         confidence_threshold = 0.15, force_upload = True\<rparr>) = []"
proof -
  have h: "print_aadhar_detected (detect_cards_from_base64 sample_config sample_detector
       (front_image \<lparr>user_id = ''u1'', front_image = Some ''printout'', back_image = Some ''back'',
         confidence_threshold = 0.15, force_upload = True\<rparr>)
       (back_image \<lparr>user_id = ''u1'', front_image = Some ''printout'', back_image = Some ''back'',
         confidence_threshold = 0.15, force_upload = True\<rparr>)
       (confidence_threshold \<lparr>user_id = ''u1'', front_image = Some ''printout'', back_image = Some ''back'',
         confidence_threshold = 0.15, force_upload = True\<rparr>))"
    by (simp add: sample_defs engine_defs)
  show ?thesis
    using h fraud_rejected_first [OF h, of "''2024-01-01T00:00:00''" "[]"] by simp
qed


section \<open>Fail-closed approval\<close>

text \<open>
  C2. The stateless decision engine returns APPROVED only when both sides were detected,
  both confidences are at or above the low-confidence threshold and no fraud signal fired.
  Approval moreover needs both images supplied, both decoded and both inferences
  completed: a decode failure, a failed inference or a side without detection never
  yields APPROVED, so such inputs end in REJECTED or PENDING_REVIEW.
\<close>

theorem approved_only_when_both_confident:
  assumes "status (detect_cards_from_base64 cfg d f b t) = APPROVED"
  shows "front_detected (detect_cards_from_base64 cfg d f b t)
       \<and> back_detected (detect_cards_from_base64 cfg d f b t)
       \<and> LOW_CONFIDENCE_THRESHOLD cfg \<le> front_confidence (detect_cards_from_base64 cfg d f b t)
       \<and> LOW_CONFIDENCE_THRESHOLD cfg \<le> back_confidence (detect_cards_from_base64 cfg d f b t)
       \<and> \<not> print_aadhar_detected (detect_cards_from_base64 cfg d f b t)
       \<and> provided f \<and> provided b
       \<and> (\<exists>fi bi. decode_base64_image d (str_of f) = Some fi
              \<and> decode_base64_image d (str_of b) = Some bi
              \<and> (\<exists>fb bb. model d fi = Inr fb \<and> model d bi = Inr bb))"
proof -
  let ?p = "process_back d b t (process_front d f t cards_init)"
  have st0: "status ?p \<noteq> APPROVED"
    by (simp add: process_front_status process_back_status cards_init_def)
  from assms have a: "status (determine_status cfg ?p) = APPROVED"
    by (simp add: detect_cards_from_base64_def)
  note k = determine_status_approved [OF a st0]
  from k have fd: "front_detected (process_front d f t cards_init)"
    by (simp add: process_back_front_detected)
  from k have bd: "back_detected ?p" by simp
  have nb: "\<not> back_detected (process_front d f t cards_init)"
    by (simp add: process_front_back_detected cards_init_def)
  from front_detected_source [OF fd] obtain fi where
    fi: "provided f" "decode_base64_image d (str_of f) = Some fi" "detected (detect_from_bytes d fi t)"
    by blast
  from back_detected_source [OF bd nb] obtain bi where
    bi: "provided b" "decode_base64_image d (str_of b) = Some bi" "detected (detect_from_bytes d bi t)"
    by blast
  from fi(3) obtain fb where fb: "model d fi = Inr fb"
    using detect_from_bytes_error [of d fi _ t] by (cases "model d fi") auto
  from bi(3) obtain bb where bb: "model d bi = Inr bb"
    using detect_from_bytes_error [of d bi _ t] by (cases "model d bi") auto
  from k fi bi fb bb show ?thesis
    by (simp add: detect_cards_from_base64_def determine_status_fields)
qed

theorem approved_only_when_both_confident_witness:
  "status (detect_cards_from_base64 sample_config sample_detector (Some ''front'') (Some ''back'') 0.15)
     = APPROVED
   \<and> front_detected (detect_cards_from_base64 sample_config sample_detector (Some ''front'') (Some ''back'') 0.15)
   \<and> back_detected (detect_cards_from_base64 sample_config sample_detector (Some ''front'') (Some ''back'') 0.15)
   \<and> status (detect_cards_from_base64 sample_config sample_detector (Some ''garbage'') (Some ''back'') 0.15)
     = REJECTED
   \<and> status (detect_cards_from_base64 sample_config sample_detector (Some ''front'') (Some ''crash'') 0.15)
     = REJECTED
   \<and> status (detect_cards_from_base64 sample_config sample_detector (Some ''front'') (Some ''faint_back'') 0.05)
     = PENDING_REVIEW"
proof -
  have h: "status (detect_cards_from_base64 sample_config sample_detector (Some ''front'') (Some ''back'') 0.15)
     = APPROVED"
    by (simp add: sample_defs engine_defs)
  have "status (detect_cards_from_base64 sample_config sample_detector (Some ''garbage'') (Some ''back'') 0.15)
     = REJECTED"
    by (simp add: sample_defs engine_defs)
  moreover have "status (detect_cards_from_base64 sample_config sample_detector (Some ''front'') (Some ''crash'') 0.15)
     = REJECTED"
    by (simp add: sample_defs engine_defs)
  moreover have "status (detect_cards_from_base64 sample_config sample_detector (Some ''front'') (Some ''faint_back'') 0.05)
     = PENDING_REVIEW"
    by (simp add: sample_defs engine_defs)
  ultimately show ?thesis
    using h approved_only_when_both_confident [OF h] by simp
qed

section \<open>A single confident side\<close>

text \<open>
  C10. In the stateless decision engine, when exactly one side is detected, no fraud
  signal fired and the detected side's confidence is at or above the low-confidence
  threshold, the status is REJECTED, the value the result was initialised with.
\<close>

theorem single_confident_side_rejected:
  assumes "\<not> print_aadhar_detected (detect_cards_from_base64 cfg d f b t)"
    and "front_detected (detect_cards_from_base64 cfg d f b t)
           \<noteq> back_detected (detect_cards_from_base64 cfg d f b t)"
    and "front_detected (detect_cards_from_base64 cfg d f b t) \<longrightarrow>
           LOW_CONFIDENCE_THRESHOLD cfg \<le> front_confidence (detect_cards_from_base64 cfg d f b t)"
    and "back_detected (detect_cards_from_base64 cfg d f b t) \<longrightarrow>
           LOW_CONFIDENCE_THRESHOLD cfg \<le> back_confidence (detect_cards_from_base64 cfg d f b t)"
  shows "status (detect_cards_from_base64 cfg d f b t) = REJECTED"
proof -
  let ?p = "process_back d b t (process_front d f t cards_init)"
  have inv: "cards_inv t ?p"
    using cards_inv_detect [of t cfg d f b]
    by (simp add: detect_cards_from_base64_def cards_inv_determine)
  have st: "status ?p = REJECTED"
    by (simp add: process_front_status process_back_status cards_init_def)
  from assms have "\<not> print_aadhar_detected ?p" "front_detected ?p \<noteq> back_detected ?p"
    "front_detected ?p \<longrightarrow> LOW_CONFIDENCE_THRESHOLD cfg \<le> front_confidence ?p"
    "back_detected ?p \<longrightarrow> LOW_CONFIDENCE_THRESHOLD cfg \<le> back_confidence ?p"
    by (simp_all add: detect_cards_from_base64_def determine_status_fields)
  from determine_status_single [OF inv st this] show ?thesis
    by (simp add: detect_cards_from_base64_def)
qed

theorem single_confident_side_rejected_witness:
  "\<not> print_aadhar_detected (detect_cards_from_base64 sample_config sample_detector (Some ''front'') None 0.15)
   \<and> front_detected (detect_cards_from_base64 sample_config sample_detector (Some ''front'') None 0.15)
   \<and> \<not> back_detected (detect_cards_from_base64 sample_config sample_detector (Some ''front'') None 0.15)
   \<and> LOW_CONFIDENCE_THRESHOLD sample_config
        \<le> front_confidence (detect_cards_from_base64 sample_config sample_detector (Some ''front'') None 0.15)
   \<and> status (detect_cards_from_base64 sample_config sample_detector (Some ''front'') None 0.15) = REJECTED"
proof -
  have h: "\<not> print_aadhar_detected (detect_cards_from_base64 sample_config sample_detector (Some ''front'') None 0.15)"
    "front_detected (detect_cards_from_base64 sample_config sample_detector (Some ''front'') None 0.15)
       \<noteq> back_detected (detect_cards_from_base64 sample_config sample_detector (Some ''front'') None 0.15)"
    "front_detected (detect_cards_from_base64 sample_config sample_detector (Some ''front'') None 0.15) \<longrightarrow>
       LOW_CONFIDENCE_THRESHOLD sample_config
        \<le> front_confidence (detect_cards_from_base64 sample_config sample_detector (Some ''front'') None 0.15)"
    "back_detected (detect_cards_from_base64 sample_config sample_detector (Some ''front'') None 0.15) \<longrightarrow>
       LOW_CONFIDENCE_THRESHOLD sample_config
        \<le> back_confidence (detect_cards_from_base64 sample_config sample_detector (Some ''front'') None 0.15)"
    by (simp_all add: sample_defs engine_defs)
  have e: "front_detected (detect_cards_from_base64 sample_config sample_detector (Some ''front'') None 0.15)"
    "\<not> back_detected (detect_cards_from_base64 sample_config sample_detector (Some ''front'') None 0.15)"
    by (simp_all add: sample_defs engine_defs)
  show ?thesis
    using h(1) h(3) e single_confident_side_rejected [OF h] by simp
qed

section \<open>Forced upload\<close>

text \<open>
  C6. For a request that reaches the engine (the detector is initialised and at least one
  image is supplied) with \<open>force_upload\<close> set, where not both sides are detected and no
  fraud signal fired, the response reports PENDING_REVIEW and exactly one entry, carrying
  the forced-upload reason, is appended to the manual review queue, whatever the
  confidences are.
\<close>

theorem forced_bypass_pending_review:
  assumes "provided (front_image req) \<or> provided (back_image req)"
    and "force_upload req"
    and "\<not> (front_detected (run_engine cfg d req) \<and> back_detected (run_engine cfg d req))"
    and "\<not> print_aadhar_detected (run_engine cfg d req)"
  shows "reported_status (fst (serve_detect cfg (Some d) now queue req)) = Some PENDING_REVIEW
       \<and> status_code (fst (serve_detect cfg (Some d) now queue req)) = 200
       \<and> snd (serve_detect cfg (Some d) now queue req)
           = queue @ [forced_review_item now req (run_engine cfg d req)]"
  using assms
  by (auto simp: serve_detect_def detect_aadhaar_cards_stateless_def run_engine_def Let_def
      reported_status_def add_to_review_queue_def forced_review_item_def)

theorem forced_bypass_pending_review_witness:
  "force_upload sample_request
   \<and> reported_status (fst (serve_detect sample_config (Some sample_detector) ''2024-01-01T00:00:00'' [] sample_request))
       = Some PENDING_REVIEW
   \<and> snd (serve_detect sample_config (Some sample_detector) ''2024-01-01T00:00:00'' [] sample_request)
       = [\<lparr>item_user_id = ''u1'', timestamp = ''2024-01-01T00:00:00'',
           item_front_confidence = 0.92, item_back_confidence = 0,
           reason = ''Force upload - bypassed client-side checks''\<rparr>]"
proof -
  have h: "provided (front_image sample_request) \<or> provided (back_image sample_request)"
    "force_upload sample_request"
    "\<not> (front_detected (run_engine sample_config sample_detector sample_request)
        \<and> back_detected (run_engine sample_config sample_detector sample_request))"
    "\<not> print_aadhar_detected (run_engine sample_config sample_detector sample_request)"
    by (simp_all add: sample_run) (simp_all add: sample_request_def)
  show ?thesis
    using h(2) forced_bypass_pending_review [OF h, of "''2024-01-01T00:00:00''" "[]"]
    by (simp add: sample_run forced_review_item_def) (simp add: sample_request_def)
qed

section \<open>Frame of the review queue\<close>

text \<open>
  C7. Serving a request either leaves the manual review queue as it was, or appends the
  single entry of the forced-upload branch, or appends the single entry of the
  low-confidence PENDING_REVIEW branch. When the fraud signal fired, and whenever the
  response reports REJECTED (in particular when nothing was detected), the queue is
  unchanged; so it is while the detector is not initialised.
\<close>

theorem review_queue_frame:
  "(snd (serve_detect cfg (Some d) now queue req) = queue
      \<or> (force_upload req
          \<and> \<not> (front_detected (run_engine cfg d req) \<and> back_detected (run_engine cfg d req))
          \<and> \<not> print_aadhar_detected (run_engine cfg d req)
          \<and> snd (serve_detect cfg (Some d) now queue req)
               = queue @ [forced_review_item now req (run_engine cfg d req)])
      \<or> (status (run_engine cfg d req) = PENDING_REVIEW
          \<and> \<not> print_aadhar_detected (run_engine cfg d req)
          \<and> snd (serve_detect cfg (Some d) now queue req)
               = queue @ [low_confidence_item now req (run_engine cfg d req)]))
   \<and> (print_aadhar_detected (run_engine cfg d req) \<longrightarrow>
         snd (serve_detect cfg (Some d) now queue req) = queue)
   \<and> (reported_status (fst (serve_detect cfg (Some d) now queue req)) = Some REJECTED \<longrightarrow>
         snd (serve_detect cfg (Some d) now queue req) = queue)
   \<and> snd (serve_detect cfg None now queue req) = queue"
proof -
  have none: "snd (serve_detect cfg None now queue req) = queue"
    by (simp add: serve_detect_def detect_aadhaar_cards_stateless_def)
  have q: "snd (serve_detect cfg (Some d) now queue req) =
      foldl add_to_review_queue queue (snd (detect_aadhaar_cards_stateless cfg (Some d) now req))"
    by (simp add: serve_cases)
  have s: "reported_status (fst (serve_detect cfg (Some d) now queue req)) =
      reported_status (fst (detect_aadhaar_cards_stateless cfg (Some d) now req))"
    by (simp add: serve_cases)
  have a: "snd (serve_detect cfg (Some d) now queue req) = queue
      \<or> (force_upload req
          \<and> \<not> (front_detected (run_engine cfg d req) \<and> back_detected (run_engine cfg d req))
          \<and> \<not> print_aadhar_detected (run_engine cfg d req)
          \<and> snd (serve_detect cfg (Some d) now queue req)
               = queue @ [forced_review_item now req (run_engine cfg d req)])
      \<or> (status (run_engine cfg d req) = PENDING_REVIEW
          \<and> \<not> print_aadhar_detected (run_engine cfg d req)
          \<and> snd (serve_detect cfg (Some d) now queue req)
               = queue @ [low_confidence_item now req (run_engine cfg d req)])"
    unfolding q handler_tasks by (auto simp: add_to_review_queue_def)
  have b: "print_aadhar_detected (run_engine cfg d req) \<longrightarrow>
         snd (serve_detect cfg (Some d) now queue req) = queue"
    unfolding q handler_tasks by simp
  have c: "reported_status (fst (serve_detect cfg (Some d) now queue req)) = Some REJECTED \<longrightarrow>
         snd (serve_detect cfg (Some d) now queue req) = queue"
    unfolding q s handler_tasks handler_status by auto
  from a b c none show ?thesis by blast
qed

theorem review_queue_frame_witness:
  "reported_status (fst (serve_detect sample_config (Some sample_detector) ''2024-01-01T00:00:00''
        [forced_review_item ''2023-12-31T23:59:59'' sample_request cards_init]
        \<lparr>user_id = ''u2'', front_image = Some ''blank'', back_image = None,
         confidence_threshold = 0.15, force_upload = False\<rparr>)) = Some REJECTED
   \<and> snd (serve_detect sample_config (Some sample_detector) ''2024-01-01T00:00:00''
        [forced_review_item ''2023-12-31T23:59:59'' sample_request cards_init]
        \<lparr>user_id = ''u2'', front_image = Some ''blank'', back_image = None,
         confidence_threshold = 0.15, force_upload = False\<rparr>)
       = [forced_review_item ''2023-12-31T23:59:59'' sample_request cards_init]"
proof -
  have h: "reported_status (fst (serve_detect sample_config (Some sample_detector) ''2024-01-01T00:00:00''
        [forced_review_item ''2023-12-31T23:59:59'' sample_request cards_init]
        \<lparr>user_id = ''u2'', front_image = Some ''blank'', back_image = None,
         confidence_threshold = 0.15, force_upload = False\<rparr>)) = Some REJECTED"
    by (simp add: serve_cases handler_status run_engine_def sample_defs engine_defs)
  show ?thesis
    using h review_queue_frame [of sample_config sample_detector "''2024-01-01T00:00:00''"
        "[forced_review_item ''2023-12-31T23:59:59'' sample_request cards_init]"
        "\<lparr>user_id = ''u2'', front_image = Some ''blank'', back_image = None,
         confidence_threshold = 0.15, force_upload = False\<rparr>"]
    by blast
qed

section \<open>Detected sides clear the threshold\<close>

text \<open>
  C4. For every side classification produced with confidence threshold \<open>t\<close>, a side
  reported as detected has a reported confidence of at least \<open>t\<close>. This holds for the result
  of \<open>detect_from_bytes\<close>, for both sides of \<open>detect_cards_from_base64\<close> and for both sides
  of \<open>detect_cards\<close> in main.py.
\<close>

theorem detected_confidence_at_least_threshold:
  "(detected (detect_from_bytes d img t) \<longrightarrow> t \<le> confidence (detect_from_bytes d img t))
   \<and> (front_detected (detect_cards_from_base64 cfg d f b t) \<longrightarrow>
        t \<le> front_confidence (detect_cards_from_base64 cfg d f b t))
   \<and> (back_detected (detect_cards_from_base64 cfg d f b t) \<longrightarrow>
        t \<le> back_confidence (detect_cards_from_base64 cfg d f b t))
   \<and> (m_front_detected (detect_cards fd fp bp t) \<longrightarrow>
        t \<le> m_front_confidence (detect_cards fd fp bp t))
   \<and> (m_back_detected (detect_cards fd fp bp t) \<longrightarrow>
        t \<le> m_back_confidence (detect_cards fd fp bp t))"
  using side_inv_detect [of t d img] cards_inv_detect [of t cfg d f b] file_inv_detect [of t fd fp bp]
  by (simp add: side_inv_def cards_inv_def file_cards_inv_def split: if_splits)

theorem detected_confidence_at_least_threshold_witness:
  "detected (detect_from_bytes sample_detector ''front'' 0.15)
   \<and> 0.15 \<le> confidence (detect_from_bytes sample_detector ''front'' 0.15)
   \<and> front_detected (detect_cards_from_base64 sample_config sample_detector (Some ''front'') (Some ''back'') 0.15)
   \<and> 0.15 \<le> front_confidence (detect_cards_from_base64 sample_config sample_detector (Some ''front'') (Some ''back'') 0.15)
   \<and> back_detected (detect_cards_from_base64 sample_config sample_detector (Some ''front'') (Some ''back'') 0.15)
   \<and> 0.15 \<le> back_confidence (detect_cards_from_base64 sample_config sample_detector (Some ''front'') (Some ''back'') 0.15)
   \<and> m_front_detected (detect_cards sample_file_detector (Some ''front'') (Some ''back'') 0.15)
   \<and> 0.15 \<le> m_front_confidence (detect_cards sample_file_detector (Some ''front'') (Some ''back'') 0.15)
   \<and> m_back_detected (detect_cards sample_file_detector (Some ''front'') (Some ''back'') 0.15)
   \<and> 0.15 \<le> m_back_confidence (detect_cards sample_file_detector (Some ''front'') (Some ''back'') 0.15)"
proof -
  have h: "detected (detect_from_bytes sample_detector ''front'' 0.15)"
    "front_detected (detect_cards_from_base64 sample_config sample_detector (Some ''front'') (Some ''back'') 0.15)"
    "back_detected (detect_cards_from_base64 sample_config sample_detector (Some ''front'') (Some ''back'') 0.15)"
    by (simp_all add: sample_defs engine_defs)
  have g: "m_front_detected (detect_cards sample_file_detector (Some ''front'') (Some ''back'') 0.15)"
    "m_back_detected (detect_cards sample_file_detector (Some ''front'') (Some ''back'') 0.15)"
    by (simp_all add: sample_defs file_defs get_class_name_def Let_def)
  show ?thesis
    using h g detected_confidence_at_least_threshold [of sample_detector "''front''" "0.15"
        sample_config "Some ''front''" "Some ''back''" sample_file_detector "Some ''front''" "Some ''back''"]
    by blast
qed

section \<open>The reported confidence is the best matching one\<close>

text \<open>
  C3, as amended. In the stateless classifier, take a side whose image yields at least one
  detection of the slot's label at or above the threshold, let the largest confidence among
  these matching detections be positive and strictly above every detection of the other
  card label at or above the threshold. Then the side is reported detected, the matched
  label is the slot's label, and the reported confidence is that largest confidence.
\<close>

theorem best_matching_confidence_reported:
  assumes "model d img = Inr bs"
    and "(nm = ''aadhar_front'' \<and> other = ''aadhar_back'')
        \<or> (nm = ''aadhar_back'' \<and> other = ''aadhar_front'')"
    and "matching (card_classes d) t nm bs \<noteq> []"
    and "0 < Max (set (map conf (matching (card_classes d) t nm bs)))"
    and "\<forall>b\<in>set (matching (card_classes d) t other bs).
            conf b < Max (set (map conf (matching (card_classes d) t nm bs)))"
  shows "detected (detect_from_bytes d img t)
       \<and> class_name (detect_from_bytes d img t) = Some nm
       \<and> confidence (detect_from_bytes d img t)
           = Max (set (map conf (matching (card_classes d) t nm bs)))
       \<and> (nm = ''aadhar_front'' \<and> provided f \<and> decode_base64_image d (str_of f) = Some img \<longrightarrow>
            front_detected (detect_cards_from_base64 cfg d f b t)
            \<and> front_confidence (detect_cards_from_base64 cfg d f b t)
                = Max (set (map conf (matching (card_classes d) t nm bs))))
       \<and> (nm = ''aadhar_back'' \<and> provided b \<and> decode_base64_image d (str_of b) = Some img \<longrightarrow>
            back_detected (detect_cards_from_base64 cfg d f b t)
            \<and> back_confidence (detect_cards_from_base64 cfg d f b t)
                = Max (set (map conf (matching (card_classes d) t nm bs))))"
proof -
  have eq: "detect_from_bytes d img t = foldl (box_step (card_classes d) t) side_init bs"
    using assms(1) by (simp add: detect_from_bytes_def)
  note k = best_matching_fold [OF assms(2-5), folded eq]
  have fr: "front_detected (detect_cards_from_base64 cfg d f b t)
            \<and> front_confidence (detect_cards_from_base64 cfg d f b t)
                = Max (set (map conf (matching (card_classes d) t nm bs)))"
    if "nm = ''aadhar_front''" "provided f" "decode_base64_image d (str_of f) = Some img"
    using that k
    by (simp add: detect_cards_from_base64_def determine_status_fields process_back_front_detected
        process_back_front_confidence process_front_def Let_def)
  have bk: "back_detected (detect_cards_from_base64 cfg d f b t)
            \<and> back_confidence (detect_cards_from_base64 cfg d f b t)
                = Max (set (map conf (matching (card_classes d) t nm bs)))"
    if "nm = ''aadhar_back''" "provided b" "decode_base64_image d (str_of b) = Some img"
    using that k
    by (simp add: detect_cards_from_base64_def determine_status_fields process_back_def Let_def)
  from k fr bk show ?thesis by blast
qed

theorem best_matching_confidence_reported_witness:
  "detected (detect_from_bytes sample_detector ''front_over_back'' 0.15)
   \<and> class_name (detect_from_bytes sample_detector ''front_over_back'' 0.15) = Some ''aadhar_front''
   \<and> confidence (detect_from_bytes sample_detector ''front_over_back'' 0.15) = 0.95
   \<and> front_detected (detect_cards_from_base64 sample_config sample_detector
         (Some ''front_over_back'') None 0.15)
   \<and> front_confidence (detect_cards_from_base64 sample_config sample_detector
         (Some ''front_over_back'') None 0.15) = 0.95"
proof -
  let ?bs = "[\<lparr>conf = 0.30, cls = 0\<rparr>, \<lparr>conf = 0.70, cls = 1\<rparr>,
       \<lparr>conf = 0.95, cls = 1\<rparr>, \<lparr>conf = 0.10, cls = 1::int\<rparr>]"
  have cc: "card_classes sample_detector = sample_classes"
    by (simp add: sample_detector_def)
  have h1: "model sample_detector ''front_over_back'' = Inr ?bs"
    by (simp add: sample_detector_def sample_model_def)
  have h2: "(''aadhar_front'' = ''aadhar_front'' \<and> ''aadhar_back'' = ''aadhar_back'')
        \<or> (''aadhar_front'' = ''aadhar_back'' \<and> ''aadhar_back'' = ''aadhar_front'')"
    by simp
  have h3: "matching (card_classes sample_detector) 0.15 ''aadhar_front'' ?bs \<noteq> []"
    unfolding cc matching_front_over_back by simp
  have mx: "Max (set (map conf (matching (card_classes sample_detector) 0.15 ''aadhar_front'' ?bs))) = 0.95"
    unfolding cc matching_front_over_back by simp
  have h4: "0 < Max (set (map conf (matching (card_classes sample_detector) 0.15 ''aadhar_front'' ?bs)))"
    unfolding mx by simp
  have h5: "\<forall>b\<in>set (matching (card_classes sample_detector) 0.15 ''aadhar_back'' ?bs).
      conf b < Max (set (map conf (matching (card_classes sample_detector) 0.15 ''aadhar_front'' ?bs)))"
    unfolding mx unfolding cc matching_front_over_back by simp
  have p: "provided (Some ''front_over_back'')"
    "decode_base64_image sample_detector (str_of (Some ''front_over_back'')) = Some ''front_over_back''"
    by (simp_all add: sample_detector_def)
  show ?thesis
    using p best_matching_confidence_reported [OF h1 h2 h3 h4 h5,
        of "Some ''front_over_back''" sample_config None]
    unfolding mx by simp
qed

text \<open>
  C3 as stated fails. In the stateless classifier the image \<open>mixed\<close> holds a front
  detection at 0.80, above the threshold 0.15, next to a back detection at 0.90: the
  classifier keeps the back label, and the front side is reported undetected with
  confidence 0. In main.py the image \<open>two_fronts\<close> holds front detections at 0.90 and 0.30:
  the reported confidence is 0.30, the last one scanned.
\<close>

theorem best_matching_confidence_counterexample:
  "matching (card_classes sample_detector) 0.15 ''aadhar_front''
       [\<lparr>conf = 0.90, cls = 0\<rparr>, \<lparr>conf = 0.80, cls = 1\<rparr>] = [\<lparr>conf = 0.80, cls = 1\<rparr>]
   \<and> model sample_detector ''mixed'' = Inr [\<lparr>conf = 0.90, cls = 0\<rparr>, \<lparr>conf = 0.80, cls = 1\<rparr>]
   \<and> \<not> front_detected (detect_cards_from_base64 sample_config sample_detector (Some ''mixed'') None 0.15)
   \<and> front_confidence (detect_cards_from_base64 sample_config sample_detector (Some ''mixed'') None 0.15) = 0
   \<and> class_name (detect_from_bytes sample_detector ''mixed'' 0.15) = Some ''aadhar_back''
   \<and> matching (file_card_classes sample_file_detector) 0.15 ''aadhar_front''
       [\<lparr>conf = 0.90, cls = 1\<rparr>, \<lparr>conf = 0.30, cls = 1\<rparr>]
       = [\<lparr>conf = 0.90, cls = 1\<rparr>, \<lparr>conf = 0.30, cls = 1\<rparr>]
   \<and> model_on_path sample_file_detector ''two_fronts''
       = Inr [\<lparr>conf = 0.90, cls = 1\<rparr>, \<lparr>conf = 0.30, cls = 1\<rparr>]
   \<and> m_front_detected (detect_cards sample_file_detector (Some ''two_fronts'') None 0.15)
   \<and> m_front_confidence (detect_cards sample_file_detector (Some ''two_fronts'') None 0.15) = 0.30"
  by (simp add: matching_def box_label_def sample_defs engine_defs file_defs)

section \<open>Undetected sides report confidence zero\<close>

text \<open>
  C5. A side that is not detected reports the confidence 0: for \<open>detect_from_bytes\<close>, for
  both sides of \<open>detect_cards_from_base64\<close> and for both sides of \<open>detect_cards\<close>. In
  particular a side whose detections are all below the threshold or carry another label
  (so also a side with no detection at all) is not detected, and a failed inference is
  caught and recorded in the result, which still reports no detection. All these functions
  return a result for every input.
\<close>

theorem undetected_confidence_zero:
  "(\<not> detected (detect_from_bytes d img t) \<longrightarrow> confidence (detect_from_bytes d img t) = 0)
   \<and> (\<not> front_detected (detect_cards_from_base64 cfg d f b t) \<longrightarrow>
         front_confidence (detect_cards_from_base64 cfg d f b t) = 0)
   \<and> (\<not> back_detected (detect_cards_from_base64 cfg d f b t) \<longrightarrow>
         back_confidence (detect_cards_from_base64 cfg d f b t) = 0)
   \<and> (\<not> m_front_detected (detect_cards fd fp bp t) \<longrightarrow>
         m_front_confidence (detect_cards fd fp bp t) = 0)
   \<and> (\<not> m_back_detected (detect_cards fd fp bp t) \<longrightarrow>
         m_back_confidence (detect_cards fd fp bp t) = 0)
   \<and> (model d img = Inl e \<longrightarrow>
         \<not> detected (detect_from_bytes d img t) \<and> error (detect_from_bytes d img t) = Some e)
   \<and> (decode_base64_image d (str_of f) = Some img \<and> model d img = Inr bs
        \<and> (\<forall>x\<in>set bs. conf x < t \<or> box_label (card_classes d) x \<noteq> ''aadhar_front'') \<longrightarrow>
         \<not> front_detected (detect_cards_from_base64 cfg d f b t))
   \<and> (decode_base64_image d (str_of b) = Some img \<and> model d img = Inr bs
        \<and> (\<forall>x\<in>set bs. conf x < t \<or> box_label (card_classes d) x \<noteq> ''aadhar_back'') \<longrightarrow>
         \<not> back_detected (detect_cards_from_base64 cfg d f b t))
   \<and> (model_on_path fd (str_of fp) = Inr bs
        \<and> (\<forall>x\<in>set bs. conf x < t \<or> box_label (file_card_classes fd) x \<noteq> ''aadhar_front'') \<longrightarrow>
         \<not> m_front_detected (detect_cards fd fp bp t))
   \<and> (model_on_path fd (str_of bp) = Inr bs
        \<and> (\<forall>x\<in>set bs. conf x < t \<or> box_label (file_card_classes fd) x \<noteq> ''aadhar_back'') \<longrightarrow>
         \<not> m_back_detected (detect_cards fd fp bp t))"
proof -
  have a: "\<not> detected (detect_from_bytes d img t) \<longrightarrow> confidence (detect_from_bytes d img t) = 0"
    using side_inv_detect [of t d img] by (simp add: side_inv_def split: if_splits)
  have c: "(\<not> front_detected (detect_cards_from_base64 cfg d f b t) \<longrightarrow>
         front_confidence (detect_cards_from_base64 cfg d f b t) = 0)
     \<and> (\<not> back_detected (detect_cards_from_base64 cfg d f b t) \<longrightarrow>
         back_confidence (detect_cards_from_base64 cfg d f b t) = 0)"
    using cards_inv_detect [of t cfg d f b] by (simp add: cards_inv_def split: if_splits)
  have m: "(\<not> m_front_detected (detect_cards fd fp bp t) \<longrightarrow>
         m_front_confidence (detect_cards fd fp bp t) = 0)
     \<and> (\<not> m_back_detected (detect_cards fd fp bp t) \<longrightarrow>
         m_back_confidence (detect_cards fd fp bp t) = 0)"
    using file_inv_detect [of t fd fp bp] by (simp add: file_cards_inv_def split: if_splits)
  have e: "model d img = Inl e \<longrightarrow>
         \<not> detected (detect_from_bytes d img t) \<and> error (detect_from_bytes d img t) = Some e"
    by (simp add: detect_from_bytes_def side_init_def)
  from a c m e stateless_front_undetected [of d f img bs t cfg b]
    stateless_back_undetected [of d b img bs t cfg f]
    file_front_undetected [of fd fp bs t bp] file_back_undetected [of fd bp bs t fp]
  show ?thesis by blast
qed

theorem undetected_confidence_zero_witness:
  "\<not> front_detected (detect_cards_from_base64 sample_config sample_detector
        (Some ''back'') (Some ''faint_back'') 0.15)
   \<and> front_confidence (detect_cards_from_base64 sample_config sample_detector
        (Some ''back'') (Some ''faint_back'') 0.15) = 0
   \<and> \<not> back_detected (detect_cards_from_base64 sample_config sample_detector
        (Some ''back'') (Some ''faint_back'') 0.15)
   \<and> back_confidence (detect_cards_from_base64 sample_config sample_detector
        (Some ''back'') (Some ''faint_back'') 0.15) = 0
   \<and> \<not> detected (detect_from_bytes sample_detector ''crash'' 0.15)
   \<and> confidence (detect_from_bytes sample_detector ''crash'' 0.15) = 0
   \<and> \<not> m_front_detected (detect_cards sample_file_detector (Some ''blank'') (Some ''faint_back'') 0.15)
   \<and> m_front_confidence (detect_cards sample_file_detector (Some ''blank'') (Some ''faint_back'') 0.15) = 0
   \<and> \<not> m_back_detected (detect_cards sample_file_detector (Some ''blank'') (Some ''faint_back'') 0.15)
   \<and> m_back_confidence (detect_cards sample_file_detector (Some ''blank'') (Some ''faint_back'') 0.15) = 0"
proof -
  have e: "model sample_detector ''crash'' = Inl ''inference failed''"
    by (simp add: sample_detector_def sample_model_def)
  have f: "decode_base64_image sample_detector (str_of (Some ''back'')) = Some ''back''
      \<and> model sample_detector ''back'' = Inr [\<lparr>conf = 0.88, cls = 0\<rparr>]
      \<and> (\<forall>x\<in>set [\<lparr>conf = 0.88, cls = 0\<rparr>]. conf x < 0.15
            \<or> box_label (card_classes sample_detector) x \<noteq> ''aadhar_front'')"
    by (simp add: sample_defs box_label_def get_class_name_def)
  have g: "model_on_path sample_file_detector (str_of (Some ''faint_back'')) = Inr [\<lparr>conf = 0.08, cls = 0\<rparr>]
      \<and> (\<forall>x\<in>set [\<lparr>conf = 0.08, cls = 0\<rparr>]. conf x < 0.15
            \<or> box_label (file_card_classes sample_file_detector) x \<noteq> ''aadhar_back'')"
    by (simp add: sample_defs sample_file_detector_def)
  have h: "\<not> back_detected (detect_cards_from_base64 sample_config sample_detector
        (Some ''back'') (Some ''faint_back'') 0.15)"
    "\<not> m_front_detected (detect_cards sample_file_detector (Some ''blank'') (Some ''faint_back'') 0.15)"
    by (simp_all add: sample_defs engine_defs file_defs)
  note u = undetected_confidence_zero [of sample_detector "''back''" "0.15" sample_config
      "Some ''back''" "Some ''faint_back''" sample_file_detector "Some ''blank''" "Some ''faint_back''"
      "''inference failed''" "[\<lparr>conf = 0.88, cls = 0\<rparr>]"]
  note v = undetected_confidence_zero [of sample_detector "''crash''" "0.15" sample_config
      "Some ''back''" "Some ''faint_back''" sample_file_detector "Some ''blank''" "Some ''faint_back''"
      "''inference failed''" "[\<lparr>conf = 0.08, cls = 0\<rparr>]"]
  note u7 = u [THEN conjunct2, THEN conjunct2, THEN conjunct2, THEN conjunct2, THEN conjunct2,
      THEN conjunct2, THEN conjunct1]
  note u2 = u [THEN conjunct2, THEN conjunct1]
  note u3 = u [THEN conjunct2, THEN conjunct2, THEN conjunct1]
  note u4 = u [THEN conjunct2, THEN conjunct2, THEN conjunct2, THEN conjunct1]
  note v1 = v [THEN conjunct1]
  note v5 = v [THEN conjunct2, THEN conjunct2, THEN conjunct2, THEN conjunct2, THEN conjunct1]
  note v6 = v [THEN conjunct2, THEN conjunct2, THEN conjunct2, THEN conjunct2, THEN conjunct2,
      THEN conjunct1]
  note v10 = v [THEN conjunct2, THEN conjunct2, THEN conjunct2, THEN conjunct2, THEN conjunct2,
      THEN conjunct2, THEN conjunct2, THEN conjunct2, THEN conjunct2]
  have fr: "\<not> front_detected (detect_cards_from_base64 sample_config sample_detector
        (Some ''back'') (Some ''faint_back'') 0.15)"
    by (rule mp [OF u7 f])
  have cr: "\<not> detected (detect_from_bytes sample_detector ''crash'' 0.15)"
    using mp [OF v6 e] by (rule conjunct1)
  have mb: "\<not> m_back_detected (detect_cards sample_file_detector (Some ''blank'') (Some ''faint_back'') 0.15)"
    by (rule mp [OF v10 g])
  from fr mp [OF u2 fr] h(1) mp [OF u3 h(1)] cr mp [OF v1 cr] h(2) mp [OF u4 h(2)] mb mp [OF v5 mb]
  show ?thesis by (intro conjI)
qed

section \<open>Decoding the raw tensor\<close>

text \<open>
  C9, as amended. For every model output with exactly seven channels (four box channels
  and the three class-score channels of \<open>CLASS_NAMES\<close>), \<open>detect\<close> returns a result.
  Whenever some class score exceeds the threshold 0.25 a detection is reported; a reported
  detection belongs to a candidate and a class channel whose score is the largest of that
  candidate's class scores, is the largest class score of all candidates, exceeds the
  threshold, and its label is the name mapped to that channel. Without a detection the
  initial result is returned. In particular, for a tensor with a single candidate one of
  whose class channels holds a score above the threshold and strictly above the other two,
  the detection carries the name mapped to that channel and that score.
\<close>

theorem tensor_best_detection:
  assumes "num_channels output = 7"
  shows "\<exists>best. detect w h output = Inr best
     \<and> ((\<exists>i<num_candidates output. \<exists>c<3. ONNX_CONFIDENCE_THRESHOLD < entry output (4 + c) i)
          \<longrightarrow> best_detected best)
     \<and> (best_detected best \<longrightarrow>
          (\<exists>i<num_candidates output. \<exists>c<3.
              card_type best = Some (CLASS_NAMES ! c)
            \<and> best_confidence best = entry output (4 + c) i
            \<and> ONNX_CONFIDENCE_THRESHOLD < entry output (4 + c) i
            \<and> (\<forall>c'<3. entry output (4 + c') i \<le> entry output (4 + c) i)
            \<and> (\<forall>j<num_candidates output. \<forall>c'<3.
                  entry output (4 + c') j \<le> entry output (4 + c) i)))
     \<and> (\<not> best_detected best \<longrightarrow> best = best_init)
     \<and> (\<forall>c<3. num_candidates output = 1 \<and> ONNX_CONFIDENCE_THRESHOLD < entry output (4 + c) 0
            \<and> (\<forall>c'<3. c' \<noteq> c \<longrightarrow> entry output (4 + c') 0 < entry output (4 + c) 0)
          \<longrightarrow> card_type best = Some (CLASS_NAMES ! c)
              \<and> best_confidence best = entry output (4 + c) 0)"
proof -
  let ?n = "num_candidates output"
  let ?T = ONNX_CONFIDENCE_THRESHOLD
  have idx: "\<forall>i\<in>set [0..<?n]. i < ?n" by simp
  from detect_loop_char [OF assms idx, of w h best_init] obtain best where
    run0: "detect_loop w h output best_init [0..<?n] = Inr best"
    and ub0: "\<forall>i\<in>set [0..<?n]. ?T < cand_max output i \<longrightarrow> cand_max output i \<le> best_confidence best"
    and src0: "best = best_init
       \<or> (\<exists>i\<in>set [0..<?n]. ?T < cand_max output i
             \<and> best_confidence best_init < cand_max output i \<and> best = chosen w h output i)"
    by blast
  have run: "detect w h output = Inr best"
    using run0 by (simp add: detect_def)
  have ub: "\<forall>i<?n. ?T < cand_max output i \<longrightarrow> cand_max output i \<le> best_confidence best"
    using ub0 by simp
  have src: "best = best_init
       \<or> (\<exists>i<?n. ?T < cand_max output i \<and> best = chosen w h output i)"
    using src0 by auto
  have Tpos: "0 < ?T" by (simp add: ONNX_CONFIDENCE_THRESHOLD_def)
  have le: "entry output (4 + c) i \<le> cand_max output i" if "c < 3" for c i
    using cand_class_props(3) [of "output" i] that by blast
  have A: "best_detected best"
    if "\<exists>i<?n. \<exists>c<3. ?T < entry output (4 + c) i"
  proof -
    from that obtain i c where ic: "i < ?n" "c < 3" "?T < entry output (4 + c) i" by blast
    with le [of c i] have "?T < cand_max output i" by linarith
    with ub ic(1) have "?T < best_confidence best" by fastforce
    with Tpos have "best \<noteq> best_init" by (auto simp: best_init_def)
    with src show ?thesis by (auto simp: chosen_def)
  qed
  have B: "\<exists>i<?n. \<exists>c<3.
              card_type best = Some (CLASS_NAMES ! c)
            \<and> best_confidence best = entry output (4 + c) i
            \<and> ?T < entry output (4 + c) i
            \<and> (\<forall>c'<3. entry output (4 + c') i \<le> entry output (4 + c) i)
            \<and> (\<forall>j<?n. \<forall>c'<3. entry output (4 + c') j \<le> entry output (4 + c) i)"
    if "best_detected best"
  proof -
    from that src obtain i where i: "i < ?n" "?T < cand_max output i" "best = chosen w h output i"
      by (auto simp: best_init_def)
    let ?c = "cand_class output i"
    have e: "entry output (4 + ?c) i = cand_max output i" by (rule cand_class_props(2))
    have bc: "best_confidence best = cand_max output i" using i(3) by (simp add: chosen_def)
    have glob: "entry output (4 + c') j \<le> entry output (4 + ?c) i" if "j < ?n" "c' < 3" for j c'
    proof (cases "?T < cand_max output j")
      case True
      with ub that(1) bc have "cand_max output j \<le> cand_max output i" by fastforce
      with le [OF that(2), of j] e show ?thesis by linarith
    next
      case False
      with le [OF that(2), of j] i(2) e show ?thesis by linarith
    qed
    have "card_type best = Some (CLASS_NAMES ! ?c)" using i(3) by (simp add: chosen_def)
    moreover have "best_confidence best = entry output (4 + ?c) i" using bc e by simp
    moreover have "?T < entry output (4 + ?c) i" using i(2) e by simp
    moreover have "\<forall>c'<3. entry output (4 + c') i \<le> entry output (4 + ?c) i"
      using glob i(1) by blast
    moreover have "\<forall>j<?n. \<forall>c'<3. entry output (4 + c') j \<le> entry output (4 + ?c) i"
      using glob by blast
    ultimately show ?thesis using i(1) cand_class_props(1) [of "output" i] by blast
  qed
  have C: "best = best_init" if "\<not> best_detected best"
    using that src by (auto simp: chosen_def)
  have D: "card_type best = Some (CLASS_NAMES ! c) \<and> best_confidence best = entry output (4 + c) 0"
    if "c < 3" "?n = 1" "?T < entry output (4 + c) 0"
       "\<forall>c'<3. c' \<noteq> c \<longrightarrow> entry output (4 + c') 0 < entry output (4 + c) 0" for c
  proof -
    have "\<exists>i<?n. \<exists>c<3. ?T < entry output (4 + c) i" using that(1-3) by auto
    from B [OF A [OF this]] that(2) obtain c0 where c0: "c0 < 3"
      "card_type best = Some (CLASS_NAMES ! c0)" "best_confidence best = entry output (4 + c0) 0"
      "\<forall>c'<3. entry output (4 + c') 0 \<le> entry output (4 + c0) 0"
      by auto
    have "c0 = c"
    proof (rule ccontr)
      assume "c0 \<noteq> c"
      with that(4) c0(1) have "entry output (4 + c0) 0 < entry output (4 + c) 0" by blast
      moreover from c0(4) that(1) have "entry output (4 + c) 0 \<le> entry output (4 + c0) 0" by blast
      ultimately show False by simp
    qed
    with c0 show ?thesis by simp
  qed
  from run A B C D show ?thesis by blast
qed

theorem tensor_best_detection_witness:
  "num_channels sample_single = 7 \<and> num_candidates sample_single = 1
   \<and> ONNX_CONFIDENCE_THRESHOLD < entry sample_single (4 + 2) 0
   \<and> (\<exists>best. detect 640 640 sample_single = Inr best \<and> best_detected best
         \<and> card_type best = Some (CLASS_NAMES ! 2) \<and> best_confidence best = entry sample_single (4 + 2) 0)
   \<and> CLASS_NAMES ! 2 = ''print_aadhaar'' \<and> entry sample_single (4 + 2) 0 = 0.80"
proof -
  have h: "num_channels sample_single = 7" by (simp add: sample_single_def)
  have n: "num_candidates sample_single = 1" by (simp add: sample_single_def)
  have t: "ONNX_CONFIDENCE_THRESHOLD < entry sample_single (4 + 2) 0"
    by (simp add: sample_single_def ONNX_CONFIDENCE_THRESHOLD_def)
  have s: "\<forall>c'<3. c' \<noteq> 2 \<longrightarrow> entry sample_single (4 + c') 0 < entry sample_single (4 + 2) 0"
    by (auto simp: sample_single_def numeral_3_eq_3 less_Suc_eq)
  from tensor_best_detection [OF h, of 640 640] obtain best where
    b: "detect 640 640 sample_single = Inr best"
    and a: "(\<exists>i<num_candidates sample_single. \<exists>c<3.
               ONNX_CONFIDENCE_THRESHOLD < entry sample_single (4 + c) i) \<longrightarrow> best_detected best"
    and d: "\<forall>c<3. num_candidates sample_single = 1
            \<and> ONNX_CONFIDENCE_THRESHOLD < entry sample_single (4 + c) 0
            \<and> (\<forall>c'<3. c' \<noteq> c \<longrightarrow> entry sample_single (4 + c') 0 < entry sample_single (4 + c) 0)
          \<longrightarrow> card_type best = Some (CLASS_NAMES ! c)
              \<and> best_confidence best = entry sample_single (4 + c) 0"
    by blast
  have two: "(2::nat) < 3" by simp
  have "(0::nat) < num_candidates sample_single" using n by simp
  with t two have "\<exists>i<num_candidates sample_single. \<exists>c<3.
      ONNX_CONFIDENCE_THRESHOLD < entry sample_single (4 + c) i" by blast
  with a have "best_detected best" by blast
  moreover from d n t s two have "card_type best = Some (CLASS_NAMES ! 2)
      \<and> best_confidence best = entry sample_single (4 + 2) 0" by blast
  moreover have "CLASS_NAMES ! 2 = ''print_aadhaar''" "entry sample_single (4 + 2) 0 = 0.80"
    by (simp_all add: CLASS_NAMES_def sample_single_def)
  ultimately show ?thesis using h n t b by blast
qed

text \<open>
  C9 as stated fails on outputs with more than three class channels, which the decoder
  accepts without a check of the channel count: it reads the channels 4, 5 and 6 only.
  With five class scores whose last one, 0.90, is the largest and the only one above the
  threshold, nothing is detected. With four class scores 0.50, 0.20, 0.10 and 0.875 the
  candidate is labelled with the first channel's name at 0.50, although the fourth class
  channel holds the maximum.
\<close>

theorem tensor_best_detection_counterexample:
  "num_channels sample_wide = 9 \<and> num_candidates sample_wide = 1
   \<and> entry sample_wide 4 0 = 0.10 \<and> entry sample_wide 5 0 = 0.20 \<and> entry sample_wide 6 0 = 0.10
   \<and> entry sample_wide 7 0 = 0.30 \<and> entry sample_wide 8 0 = 0.90
   \<and> ONNX_CONFIDENCE_THRESHOLD < entry sample_wide 8 0
   \<and> detect 640 640 sample_wide = Inr best_init
   \<and> \<not> best_detected best_init
   \<and> num_channels sample_eight = 8 \<and> num_candidates sample_eight = 1
   \<and> entry sample_eight 4 0 = 0.50 \<and> entry sample_eight 5 0 = 0.20 \<and> entry sample_eight 6 0 = 0.10
   \<and> entry sample_eight 7 0 = 0.875
   \<and> detect 640 640 sample_eight =
        Inr \<lparr>best_detected = True, card_type = Some ''aadhaar_back'', best_confidence = 0.50,
             best_bbox = Some \<lparr>bbox_x = 220, bbox_y = 270, bbox_width = 200, bbox_height = 100\<rparr>\<rparr>"
  by (simp add: onnx_defs sample_wide_def sample_eight_def upt_2)

section \<open>Startup and the thresholds\<close>

text \<open>
  C8, as amended. Startup does not compare the thresholds: its outcome is the same for
  every configuration. The service starts exactly when the model file exists and the model
  loads, and startup ends the process with exit code 1 exactly when the model file is
  missing or loading raises.
\<close>

theorem startup_ignores_thresholds:
  "startup_event cfg env = startup_event cfg' env
   \<and> ((\<exists>d. startup_event cfg env = Started d) \<longleftrightarrow>
        model_exists env \<and> (\<exists>d. load_model env = Inr d))
   \<and> (startup_event cfg env = SysExit 1 \<longleftrightarrow>
        \<not> model_exists env \<or> (\<exists>e. load_model env = Inl e))
   \<and> (model_exists env \<and> load_model env = Inr d \<longrightarrow> startup_event cfg env = Started d)"
  by (cases "load_model env") (auto simp: startup_event_def detector_init_def)

theorem startup_ignores_thresholds_witness:
  "startup_event sample_config (sample_environment\<lparr>model_exists := False\<rparr>) = SysExit 1
   \<and> startup_event sample_config sample_environment = Started sample_detector"
proof -
  have a: "\<not> model_exists (sample_environment\<lparr>model_exists := False\<rparr>)" by simp
  have b: "model_exists sample_environment \<and> load_model sample_environment = Inr sample_detector"
    by (simp add: sample_environment_def)
  from a b startup_ignores_thresholds [of sample_config "sample_environment\<lparr>model_exists := False\<rparr>"
      sample_config sample_detector]
    startup_ignores_thresholds [of sample_config sample_environment sample_config sample_detector]
  show ?thesis by blast
qed

text \<open>
  C8 as stated fails: with a low-confidence threshold of 0.50 above the base threshold of
  0.15 the service starts, and it answers a request.
\<close>

theorem configuration_error_counterexample:
  "CONFIDENCE_THRESHOLD inconsistent_config < LOW_CONFIDENCE_THRESHOLD inconsistent_config
   \<and> startup_event inconsistent_config sample_environment = Started sample_detector
   \<and> status_code (fst (serve_detect inconsistent_config (Some sample_detector) ''2024-01-01T00:00:00'' []
        \<lparr>user_id = ''u1'', front_image = Some ''front'', back_image = Some ''back'',
         confidence_threshold = 0.15, force_upload = False\<rparr>)) = 200"
  by (simp add: inconsistent_config_def sample_environment_def startup_event_def detector_init_def
      serve_cases detect_aadhaar_cards_stateless_def sample_defs engine_defs)

end
